theory Spec2Isabelle
  imports Complex_Main
begin

section \<open>JavaScript values used by the data-integration core\<close>

text \<open>
  Strings are modelled as \<^typ>\<open>string\<close>, one \<^typ>\<open>char\<close> per UTF-16 code unit; every
  string of the repository's tables lies in the Latin-1 range, where a code unit fits a
  \<^typ>\<open>char\<close>. Numbers are real numbers together with the special results that
  JavaScript arithmetic produces where real arithmetic is undefined, and with
  \<open>undefined\<close>, the result of reading an array beyond its length.
\<close>

datatype jsnum = Num real | PosInf | NegInf | NaN | Undefined

text \<open>
  Arithmetic on numbers. Rounding and the sign of zero are not modelled: a zero divisor is
  the positive zero that the subtraction or the length of the source yields.
  \<open>undefined\<close> converts to \<open>NaN\<close> in arithmetic.
\<close>

fun jsadd :: "jsnum \<Rightarrow> jsnum \<Rightarrow> jsnum" where
  "jsadd (Num a) (Num b) = Num (a + b)"
| "jsadd (Num a) PosInf = PosInf"
| "jsadd (Num a) NegInf = NegInf"
| "jsadd PosInf (Num b) = PosInf"
| "jsadd NegInf (Num b) = NegInf"
| "jsadd PosInf PosInf = PosInf"
| "jsadd NegInf NegInf = NegInf"
| "jsadd _ _ = NaN"

fun jsneg :: "jsnum \<Rightarrow> jsnum" where
  "jsneg (Num a) = Num (- a)"
| "jsneg PosInf = NegInf"
| "jsneg NegInf = PosInf"
| "jsneg _ = NaN"

definition jssub :: "jsnum \<Rightarrow> jsnum \<Rightarrow> jsnum" where
  "jssub a b = jsadd a (jsneg b)"

fun jsmul :: "jsnum \<Rightarrow> jsnum \<Rightarrow> jsnum" where
  "jsmul (Num a) (Num b) = Num (a * b)"
| "jsmul (Num a) PosInf = (if a = 0 then NaN else if 0 < a then PosInf else NegInf)"
| "jsmul (Num a) NegInf = (if a = 0 then NaN else if 0 < a then NegInf else PosInf)"
| "jsmul PosInf (Num b) = (if b = 0 then NaN else if 0 < b then PosInf else NegInf)"
| "jsmul NegInf (Num b) = (if b = 0 then NaN else if 0 < b then NegInf else PosInf)"
| "jsmul PosInf PosInf = PosInf"
| "jsmul NegInf NegInf = PosInf"
| "jsmul PosInf NegInf = NegInf"
| "jsmul NegInf PosInf = NegInf"
| "jsmul _ _ = NaN"

fun jsdiv :: "jsnum \<Rightarrow> jsnum \<Rightarrow> jsnum" where
  "jsdiv (Num a) (Num b) =
     (if b \<noteq> 0 then Num (a / b)
      else if a = 0 then NaN else if 0 < a then PosInf else NegInf)"
| "jsdiv (Num a) PosInf = Num 0"
| "jsdiv (Num a) NegInf = Num 0"
| "jsdiv PosInf (Num b) = (if 0 \<le> b then PosInf else NegInf)"
| "jsdiv NegInf (Num b) = (if 0 \<le> b then NegInf else PosInf)"
| "jsdiv _ _ = NaN"

text \<open>
  The comparisons \<open>a >= b\<close> and \<open>a <= b\<close>: false as soon as one side is \<open>NaN\<close>
  or \<open>undefined\<close>.
\<close>

fun jsge :: "jsnum \<Rightarrow> jsnum \<Rightarrow> bool" where
  "jsge (Num a) (Num b) = (b \<le> a)"
| "jsge PosInf (Num b) = True"
| "jsge PosInf PosInf = True"
| "jsge PosInf NegInf = True"
| "jsge (Num a) NegInf = True"
| "jsge NegInf NegInf = True"
| "jsge _ _ = False"

definition jsle :: "jsnum \<Rightarrow> jsnum \<Rightarrow> bool" where
  "jsle a b = jsge b a"

text \<open>Truthiness of a number slot, and the operator \<open>a || b\<close> on such slots.\<close>

fun truthyNum :: "jsnum \<Rightarrow> bool" where
  "truthyNum (Num a) = (a \<noteq> 0)"
| "truthyNum PosInf = True"
| "truthyNum NegInf = True"
| "truthyNum NaN = False"
| "truthyNum Undefined = False"

definition jsor :: "jsnum \<Rightarrow> jsnum \<Rightarrow> jsnum" where
  "jsor a b = (if truthyNum a then a else b)"

text \<open>Reading \<open>values[k]\<close> from an array of numbers.\<close>

definition elemAt :: "real list \<Rightarrow> int \<Rightarrow> jsnum" where
  "elemAt xs k = (if 0 \<le> k \<and> k < int (length xs) then Num (xs ! nat k) else Undefined)"

text \<open>\<open>Math.min(...xs)\<close> and \<open>Math.max(...xs)\<close>; on no arguments they are the infinities.\<close>

fun Math_min :: "real list \<Rightarrow> jsnum" where
  "Math_min [] = PosInf"
| "Math_min (x # xs) = Num (fold min xs x)"

fun Math_max :: "real list \<Rightarrow> jsnum" where
  "Math_max [] = NegInf"
| "Math_max (x # xs) = Num (fold max xs x)"

text \<open>Dynamically typed values, as they occur in GeoJSON properties and data records.\<close>

datatype jsval = JStr string | JNum real | JBool bool | JNull

fun truthy :: "jsval option \<Rightarrow> bool" where
  "truthy None = False"
| "truthy (Some (JStr s)) = (s \<noteq> [])"
| "truthy (Some (JNum n)) = (n \<noteq> 0)"
| "truthy (Some (JBool b)) = b"
| "truthy (Some JNull) = False"

text \<open>
  A \<open>Set\<close> is the list of its members in insertion order, a \<open>Map\<close> the list of
  its entries in insertion order: \<open>add\<close> leaves a set that holds the member unchanged,
  \<open>set\<close> on a key that is present replaces the value in place.
\<close>

definition setAdd :: "'a list \<Rightarrow> 'a \<Rightarrow> 'a list" where
  "setAdd s x = (if x \<in> set s then s else s @ [x])"

definition newSet :: "'a list \<Rightarrow> 'a list" where
  "newSet xs = foldl setAdd [] xs"

fun mapSet :: "('k \<times> 'v) list \<Rightarrow> 'k \<Rightarrow> 'v \<Rightarrow> ('k \<times> 'v) list" where
  "mapSet [] k v = [(k, v)]"
| "mapSet ((k', v') # m) k v = (if k' = k then (k, v) # m else (k', v') # mapSet m k v)"

definition mapGet :: "('k \<times> 'v) list \<Rightarrow> 'k \<Rightarrow> 'v option" where
  "mapGet m k = map_of m k"

section \<open>Municipality code mapping\<close>

text \<open>
  The table \<open>GUANAJUATO_MUNICIPALITIES\<close> is an object keyed by the numbers 1 to 46;
  \<open>Object.values\<close> enumerates it in ascending key order, which is the order of the
  association list below. The optional field \<open>population\<close> is never set in the table
  and is left out.
\<close>

record MunicipalityInfo =
  geoJsonCode :: int
  dataCode :: string
  officialName :: string
  commonName :: "string option"

definition GUANAJUATO_MUNICIPALITIES :: "(int \<times> MunicipalityInfo) list" where
  "GUANAJUATO_MUNICIPALITIES = 
  [
    (1, \<lparr>geoJsonCode = 1, dataCode = ''11001'', officialName = ''Abasolo'', commonName = None\<rparr>),
    (2, \<lparr>geoJsonCode = 2, dataCode = ''11002'', officialName = ''Ac'' @ [CHR 0xE1] @ ''mbaro'', commonName = None\<rparr>),
    (3, \<lparr>geoJsonCode = 3, dataCode = ''11003'', officialName = ''San Miguel de Allende'', commonName = None\<rparr>),
    (4, \<lparr>geoJsonCode = 4, dataCode = ''11004'', officialName = ''Apaseo el Alto'', commonName = None\<rparr>),
    (5, \<lparr>geoJsonCode = 5, dataCode = ''11005'', officialName = ''Apaseo el Grande'', commonName = None\<rparr>),
    (6, \<lparr>geoJsonCode = 6, dataCode = ''11006'', officialName = ''Atarjea'', commonName = None\<rparr>),
    (7, \<lparr>geoJsonCode = 7, dataCode = ''11007'', officialName = ''Celaya'', commonName = None\<rparr>),
    (8, \<lparr>geoJsonCode = 8, dataCode = ''11008'', officialName = ''Manuel Doblado'', commonName = None\<rparr>),
    (9, \<lparr>geoJsonCode = 9, dataCode = ''11009'', officialName = ''Comonfort'', commonName = None\<rparr>),
    (10, \<lparr>geoJsonCode = 10, dataCode = ''11010'', officialName = ''Coroneo'', commonName = None\<rparr>),
    (11, \<lparr>geoJsonCode = 11, dataCode = ''11011'', officialName = ''Cortazar'', commonName = None\<rparr>),
    (12, \<lparr>geoJsonCode = 12, dataCode = ''11012'', officialName = ''Cuer'' @ [CHR 0xE1] @ ''maro'', commonName = None\<rparr>),
    (13, \<lparr>geoJsonCode = 13, dataCode = ''11013'', officialName = ''Doctor Mora'', commonName = None\<rparr>),
    (14, \<lparr>geoJsonCode = 14, dataCode = ''11014'', officialName = ''Dolores Hidalgo Cuna de la Independencia Nacional'', commonName = Some ''Dolores Hidalgo''\<rparr>),
    (15, \<lparr>geoJsonCode = 15, dataCode = ''11015'', officialName = ''Guanajuato'', commonName = None\<rparr>),
    (16, \<lparr>geoJsonCode = 16, dataCode = ''11016'', officialName = ''Huan'' @ [CHR 0xED] @ ''maro'', commonName = None\<rparr>),
    (17, \<lparr>geoJsonCode = 17, dataCode = ''11017'', officialName = ''Irapuato'', commonName = None\<rparr>),
    (18, \<lparr>geoJsonCode = 18, dataCode = ''11018'', officialName = ''Jaral del Progreso'', commonName = None\<rparr>),
    (19, \<lparr>geoJsonCode = 19, dataCode = ''11019'', officialName = ''Jer'' @ [CHR 0xE9] @ ''cuaro'', commonName = None\<rparr>),
    (20, \<lparr>geoJsonCode = 20, dataCode = ''11020'', officialName = ''Le'' @ [CHR 0xF3] @ ''n'', commonName = None\<rparr>),
    (21, \<lparr>geoJsonCode = 21, dataCode = ''11021'', officialName = ''Morole'' @ [CHR 0xF3] @ ''n'', commonName = None\<rparr>),
    (22, \<lparr>geoJsonCode = 22, dataCode = ''11022'', officialName = ''Ocampo'', commonName = None\<rparr>),
    (23, \<lparr>geoJsonCode = 23, dataCode = ''11023'', officialName = ''P'' @ [CHR 0xE9] @ ''njamo'', commonName = None\<rparr>),
    (24, \<lparr>geoJsonCode = 24, dataCode = ''11024'', officialName = ''Pueblo Nuevo'', commonName = None\<rparr>),
    (25, \<lparr>geoJsonCode = 25, dataCode = ''11025'', officialName = ''Pur'' @ [CHR 0xED] @ ''sima del Rinc'' @ [CHR 0xF3] @ ''n'', commonName = None\<rparr>),
    (26, \<lparr>geoJsonCode = 26, dataCode = ''11026'', officialName = ''Romita'', commonName = None\<rparr>),
    (27, \<lparr>geoJsonCode = 27, dataCode = ''11027'', officialName = ''Salamanca'', commonName = None\<rparr>),
    (28, \<lparr>geoJsonCode = 28, dataCode = ''11028'', officialName = ''Salvatierra'', commonName = None\<rparr>),
    (29, \<lparr>geoJsonCode = 29, dataCode = ''11029'', officialName = ''San Diego de la Uni'' @ [CHR 0xF3] @ ''n'', commonName = None\<rparr>),
    (30, \<lparr>geoJsonCode = 30, dataCode = ''11030'', officialName = ''San Felipe'', commonName = None\<rparr>),
    (31, \<lparr>geoJsonCode = 31, dataCode = ''11031'', officialName = ''San Francisco del Rinc'' @ [CHR 0xF3] @ ''n'', commonName = None\<rparr>),
    (32, \<lparr>geoJsonCode = 32, dataCode = ''11032'', officialName = ''San Jos'' @ [CHR 0xE9] @ '' Iturbide'', commonName = None\<rparr>),
    (33, \<lparr>geoJsonCode = 33, dataCode = ''11033'', officialName = ''San Luis de la Paz'', commonName = None\<rparr>),
    (34, \<lparr>geoJsonCode = 34, dataCode = ''11034'', officialName = ''Santa Catarina'', commonName = None\<rparr>),
    (35, \<lparr>geoJsonCode = 35, dataCode = ''11035'', officialName = ''Santa Cruz de Juventino Rosas'', commonName = None\<rparr>),
    (36, \<lparr>geoJsonCode = 36, dataCode = ''11036'', officialName = ''Santiago Maravat'' @ [CHR 0xED] @ ''o'', commonName = None\<rparr>),
    (37, \<lparr>geoJsonCode = 37, dataCode = ''11037'', officialName = ''Silao'', commonName = None\<rparr>),
    (38, \<lparr>geoJsonCode = 38, dataCode = ''11038'', officialName = ''Tarandacuao'', commonName = None\<rparr>),
    (39, \<lparr>geoJsonCode = 39, dataCode = ''11039'', officialName = ''Tarimoro'', commonName = None\<rparr>),
    (40, \<lparr>geoJsonCode = 40, dataCode = ''11040'', officialName = ''Tierra Blanca'', commonName = None\<rparr>),
    (41, \<lparr>geoJsonCode = 41, dataCode = ''11041'', officialName = ''Uriangato'', commonName = None\<rparr>),
    (42, \<lparr>geoJsonCode = 42, dataCode = ''11042'', officialName = ''Valle de Santiago'', commonName = None\<rparr>),
    (43, \<lparr>geoJsonCode = 43, dataCode = ''11043'', officialName = ''Victoria'', commonName = None\<rparr>),
    (44, \<lparr>geoJsonCode = 44, dataCode = ''11044'', officialName = ''Villagr'' @ [CHR 0xE1] @ ''n'', commonName = None\<rparr>),
    (45, \<lparr>geoJsonCode = 45, dataCode = ''11045'', officialName = ''Xich'' @ [CHR 0xFA], commonName = None\<rparr>),
    (46, \<lparr>geoJsonCode = 46, dataCode = ''11046'', officialName = ''Yuriria'', commonName = None\<rparr>)]"

definition getMunicipalityByGeoCode :: "int \<Rightarrow> MunicipalityInfo option" where
  "getMunicipalityByGeoCode geoCode = map_of GUANAJUATO_MUNICIPALITIES geoCode"

definition getMunicipalityByDataCode :: "string \<Rightarrow> MunicipalityInfo option" where
  "getMunicipalityByDataCode code =
     find (\<lambda>info. dataCode info = code) (map snd GUANAJUATO_MUNICIPALITIES)"

definition geoCodeToDataCode :: "int \<Rightarrow> string option" where
  "geoCodeToDataCode geoCode = map_option dataCode (map_of GUANAJUATO_MUNICIPALITIES geoCode)"

definition dataCodeToGeoCode :: "string \<Rightarrow> int option" where
  "dataCodeToGeoCode code =
     map_option geoJsonCode
       (find (\<lambda>info. dataCode info = code) (map snd GUANAJUATO_MUNICIPALITIES))"

text \<open>
  The results of the two alignment validators share their shape; \<open>validateCodeAlignment\<close>
  calls the first list \<open>matched\<close> and adds a summary of the four counts.
\<close>

record ('m, 'g, 'd) AlignmentReport =
  matching :: "'m list"
  missingInGeo :: "'g list"
  missingInData :: "'d list"
  alignmentRatio :: jsnum

record ('m, 'g, 'd) CodeAlignmentReport = "('m, 'g, 'd) AlignmentReport" +
  summary_total :: nat
  summary_matched :: nat
  summary_geoJsonCount :: nat
  summary_dataCount :: nat

text \<open>
  An entry of \<open>matched\<close> is (geoCode, dataCode, name), an entry of \<open>missingInData\<close> is
  (geoCode, expectedDataCode, name), an entry of \<open>missingInGeo\<close> is
  (dataCode, expectedGeoCode, name).
\<close>

definition orUnknown :: "string option \<Rightarrow> string" where
  "orUnknown s = (case s of None \<Rightarrow> ''Unknown'' | Some n \<Rightarrow> if n = [] then ''Unknown'' else n)"

definition checkGeoCode ::
  "string list \<Rightarrow> (int \<times> string \<times> string) list \<times> (int \<times> string \<times> string) list \<Rightarrow> int
     \<Rightarrow> (int \<times> string \<times> string) list \<times> (int \<times> string \<times> string) list" where
  "checkGeoCode dataSet acc geoCode =
     (let expectedDataCode = geoCodeToDataCode geoCode;
          info = getMunicipalityByGeoCode geoCode;
          name = orUnknown (map_option officialName info)
      in case expectedDataCode of
           Some c \<Rightarrow>
             if c \<noteq> [] \<and> c \<in> set dataSet then (fst acc @ [(geoCode, c, name)], snd acc)
             else (fst acc, snd acc @ [(geoCode, orUnknown expectedDataCode, name)])
         | None \<Rightarrow> (fst acc, snd acc @ [(geoCode, orUnknown expectedDataCode, name)]))"

definition checkDataCode ::
  "int list \<Rightarrow> (string \<times> int option \<times> string option) list \<Rightarrow> string
     \<Rightarrow> (string \<times> int option \<times> string option) list" where
  "checkDataCode geoSet acc code =
     (let expectedGeoCode = dataCodeToGeoCode code;
          info = getMunicipalityByDataCode code
      in case expectedGeoCode of
           Some g \<Rightarrow>
             if g = 0 \<or> g \<notin> set geoSet
             then acc @ [(code, expectedGeoCode, map_option officialName info)]
             else acc
         | None \<Rightarrow> acc @ [(code, expectedGeoCode, map_option officialName info)])"

definition validateCodeAlignment ::
  "int list \<Rightarrow> string list
     \<Rightarrow> (int \<times> string \<times> string, string \<times> int option \<times> string option, int \<times> string \<times> string)
          CodeAlignmentReport" where
  "validateCodeAlignment geoJsonCodes dataCodes =
     (let geoSet = newSet geoJsonCodes;
          dataSet = newSet dataCodes;
          (matched, missingData) = foldl (checkGeoCode dataSet) ([], []) geoJsonCodes;
          missingGeo = foldl (checkDataCode geoSet) [] dataCodes
      in \<lparr>matching = matched,
          missingInGeo = missingGeo,
          missingInData = missingData,
          alignmentRatio =
            jsdiv (Num (real (length matched)))
                  (Num (real (max (length geoJsonCodes) (length dataCodes)))),
          summary_total = max (length geoJsonCodes) (length dataCodes),
          summary_matched = length matched,
          summary_geoJsonCount = length geoJsonCodes,
          summary_dataCount = length dataCodes\<rparr>)"

section \<open>Data loading\<close>

text \<open>
  A data record carries its municipality code and an open set of layer-specific fields,
  here \<open>extra\<close>. The optional descriptive fields of a data file are kept.
\<close>

record MunicipalDataRecord =
  municipio :: string
  extra :: "(string \<times> jsval) list"

record DataFile =
  version :: string
  source :: "string option"
  updated :: "string option"
  metadata :: "(string \<times> jsval) list option"
  records :: "MunicipalDataRecord list"

text \<open>The dynamic read \<open>r[field]\<close> of a data record.\<close>

definition recordField :: "MunicipalDataRecord \<Rightarrow> string \<Rightarrow> jsval option" where
  "recordField r f = (if f = ''municipio'' then Some (JStr (municipio r)) else map_of (extra r) f)"

definition createMunicipalityLookup :: "DataFile \<Rightarrow> (string \<times> MunicipalDataRecord) list" where
  "createMunicipalityLookup dataFile =
     foldl (\<lambda>lookup record. mapSet lookup (municipio record) record) [] (records dataFile)"

definition checkDataMunicipality :: "'a list \<Rightarrow> 'a list \<times> 'a list \<Rightarrow> 'a \<Rightarrow> 'a list \<times> 'a list" where
  "checkDataMunicipality geoMunicipalityCodes acc code =
     (if code \<in> set geoMunicipalityCodes then (setAdd (fst acc) code, snd acc)
      else (fst acc, setAdd (snd acc) code))"

definition checkGeoMunicipality :: "'a list \<Rightarrow> 'a list \<Rightarrow> 'a \<Rightarrow> 'a list" where
  "checkGeoMunicipality dataMunicipalityCodes acc code =
     (if code \<notin> set dataMunicipalityCodes then setAdd acc code else acc)"

definition validateMunicipalityAlignment :: "'a list \<Rightarrow> 'a list \<Rightarrow> ('a, 'a, 'a) AlignmentReport" where
  "validateMunicipalityAlignment geoMunicipalityCodes dataMunicipalityCodes =
     (let (matchingSet, missingGeo) =
            foldl (checkDataMunicipality geoMunicipalityCodes) ([], []) dataMunicipalityCodes;
          missingData =
            foldl (checkGeoMunicipality dataMunicipalityCodes) [] geoMunicipalityCodes
      in \<lparr>matching = matchingSet,
          missingInGeo = missingGeo,
          missingInData = missingData,
          alignmentRatio =
            jsdiv (Num (real (length matchingSet)))
                  (Num (real (max (length geoMunicipalityCodes) (length dataMunicipalityCodes))))\<rparr>)"

section \<open>GeoJSON structures\<close>

text \<open>
  Properties of a municipal feature. The typed fields may be absent from the parsed file,
  which the validator checks; \<open>other\<close> holds the remaining properties. \<open>getProp\<close> is
  the dynamic read \<open>properties[field]\<close>; the field \<open>id\<close> is always \<open>null\<close>.
\<close>

record MunicipalityProperties =
  state_code :: "int option"
  mun_code :: "int option"
  mun_name :: "string option"
  cvegeo :: "string option"
  nombre :: "string option"
  other :: "(string \<times> jsval) list"

definition getProp :: "MunicipalityProperties \<Rightarrow> string \<Rightarrow> jsval option" where
  "getProp p f =
     (if f = ''id'' then Some JNull
      else if f = ''state_code'' then map_option (\<lambda>n. JNum (real_of_int n)) (state_code p)
      else if f = ''mun_code'' then map_option (\<lambda>n. JNum (real_of_int n)) (mun_code p)
      else if f = ''mun_name'' then map_option JStr (mun_name p)
      else if f = ''cvegeo'' then map_option JStr (cvegeo p)
      else if f = ''nombre'' then map_option JStr (nombre p)
      else map_of (other p) f)"

datatype GeometryType = Polygon | MultiPolygon

datatype CoordinateTree =
  PolygonRings "real list list list" | MultiPolygonRings "real list list list list"

record Geometry =
  geometryType :: GeometryType
  coordinates :: "CoordinateTree option"

record 'p Feature =
  geometry :: "Geometry option"
  properties :: 'p

text \<open>
  \<open>features\<close> is \<open>None\<close> when the parsed file has no feature array, the case the
  validator reports and in which \<open>features.map\<close> of the join raises a \<open>TypeError\<close>.
\<close>

record MunicipalitiesGeoJSON =
  features :: "MunicipalityProperties Feature list option"

datatype error = TypeError

section \<open>Joining data with geometries\<close>

text \<open>
  The properties of an enhanced feature: the spread \<open>...feature.properties\<close> is kept in
  \<open>original\<close>, and the five properties written after it are the fields that follow.
\<close>

record EnhancedProperties =
  original :: MunicipalityProperties
  cvegeo_e :: jsval
  nombre_e :: string
  data :: "MunicipalDataRecord option"
  hasData :: bool
  dataSource :: string

record JoinMetadata =
  totalFeatures :: nat
  featuresWithData :: nat
  dataAlignment :: jsnum
  missingDataCodes :: "jsval option list"
  dataSource_m :: string
  joinedAt :: string

record EnhancedMunicipalitiesGeoJSON =
  enhancedFeatures :: "EnhancedProperties Feature list"
  metadata_e :: JoinMetadata

record JoinOptions =
  geoCodeField :: "string option"
  dataCodeField :: "string option"
  dataSourceName :: "string option"

text \<open>
  The operator \<open>a || b\<close>, on dynamically typed values and on optional strings, with a
  truthy last operand: the empty string, zero, \<open>null\<close> and \<open>undefined\<close> are falsy.
\<close>

definition valOr :: "jsval option \<Rightarrow> jsval option \<Rightarrow> jsval option" where
  "valOr a b = (if truthy a then a else b)"

definition valOrDefault :: "jsval option \<Rightarrow> jsval \<Rightarrow> jsval" where
  "valOrDefault a d = (case a of None \<Rightarrow> d | Some v \<Rightarrow> if truthy (Some v) then v else d)"

definition strOr :: "string option \<Rightarrow> string option \<Rightarrow> string option" where
  "strOr a b = (case a of None \<Rightarrow> b | Some s \<Rightarrow> if s = [] then b else a)"

definition strOrDefault :: "string option \<Rightarrow> string \<Rightarrow> string" where
  "strOrDefault a d = (case a of None \<Rightarrow> d | Some s \<Rightarrow> if s = [] then d else s)"

text \<open>
  \<open>dataLookup.get(municipalityCode)\<close>: the keys of the lookup are strings, so only a
  string finds an entry.
\<close>

definition lookupCode ::
  "(string \<times> MunicipalDataRecord) list \<Rightarrow> jsval option \<Rightarrow> MunicipalDataRecord option" where
  "lookupCode dataLookup municipalityCode =
     (case municipalityCode of Some (JStr c) \<Rightarrow> mapGet dataLookup c | _ \<Rightarrow> None)"

definition enhanceFeature ::
  "string \<Rightarrow> string \<Rightarrow> (string \<times> MunicipalDataRecord) list
     \<Rightarrow> MunicipalityProperties Feature \<Rightarrow> EnhancedProperties Feature" where
  "enhanceFeature geoField sourceName dataLookup feature =
     (let municipalityCode = getProp (properties feature) geoField;
          d = lookupCode dataLookup municipalityCode;
          code = valOrDefault (valOr (map_option JStr (cvegeo (properties feature)))
                                     municipalityCode) (JStr ''unknown'');
          name = strOrDefault (strOr (nombre (properties feature)) (mun_name (properties feature)))
                   ''Unknown''
      in \<lparr>geometry = geometry feature,
          properties = \<lparr>original = properties feature,
                        cvegeo_e = code,
                        nombre_e = name,
                        data = d,
                        hasData = (d \<noteq> None),
                        dataSource = sourceName\<rparr>\<rparr>)"

text \<open>
  \<open>now\<close> stands for \<open>new Date().toISOString()\<close>; the console output of the function is
  not modelled.
\<close>

definition joinDataWithGeometries ::
  "string \<Rightarrow> MunicipalitiesGeoJSON \<Rightarrow> DataFile \<Rightarrow> JoinOptions
     \<Rightarrow> error + EnhancedMunicipalitiesGeoJSON" where
  "joinDataWithGeometries now geoJson dataFile options =
     (let geoField = (case geoCodeField options of None \<Rightarrow> ''cvegeo'' | Some f \<Rightarrow> f);
          dataField = (case dataCodeField options of None \<Rightarrow> ''municipio'' | Some f \<Rightarrow> f);
          sourceName = (case dataSourceName options of None \<Rightarrow> ''Unknown'' | Some n \<Rightarrow> n);
          dataLookup = createMunicipalityLookup dataFile
      in case features geoJson of
           None \<Rightarrow> Inl TypeError
         | Some fs \<Rightarrow>
             (let geoCodes = newSet (map (\<lambda>f. getProp (properties f) geoField) fs);
                  dataCodes = newSet (map (\<lambda>r. recordField r dataField) (records dataFile));
                  alignment = validateMunicipalityAlignment geoCodes dataCodes;
                  enhanced = map (enhanceFeature geoField sourceName dataLookup) fs
              in Inr \<lparr>enhancedFeatures = enhanced,
                      metadata_e =
                        \<lparr>totalFeatures = length enhanced,
                         featuresWithData =
                           length (filter (\<lambda>f. hasData (properties f)) enhanced),
                         dataAlignment = alignmentRatio alignment,
                         missingDataCodes = missingInData alignment,
                         dataSource_m = sourceName,
                         joinedAt = now\<rparr>\<rparr>))"

section \<open>Choropleth classification\<close>

datatype ClassificationMethod = quintiles | equal_interval | natural_breaks

text \<open>The options; the field \<open>method\<close> of the source is \<open>method_o\<close> here.\<close>

record ChoroplethOptions =
  method_o :: "ClassificationMethod option"
  noDataColor :: "string option"
  missingDataValue :: "real option"

text \<open>
  The first loop of \<open>createChoroplethMapping\<close>: the values of the features with data,
  in feature order, and the map from the code of every feature to its value.
\<close>

definition extractValue ::
  "(MunicipalDataRecord \<Rightarrow> real) \<Rightarrow> real \<Rightarrow> real list \<times> (jsval \<times> real) list
     \<Rightarrow> EnhancedProperties Feature \<Rightarrow> real list \<times> (jsval \<times> real) list" where
  "extractValue valueExtractor missing acc feature =
     (let code = cvegeo_e (properties feature)
      in case data (properties feature) of
           Some d \<Rightarrow>
             if hasData (properties feature)
             then (let v = valueExtractor d in (fst acc @ [v], mapSet (snd acc) code v))
             else (fst acc, mapSet (snd acc) code missing)
         | None \<Rightarrow> (fst acc, mapSet (snd acc) code missing))"

definition extractValues ::
  "(MunicipalDataRecord \<Rightarrow> real) \<Rightarrow> real \<Rightarrow> EnhancedProperties Feature list
     \<Rightarrow> real list \<times> (jsval \<times> real) list" where
  "extractValues valueExtractor missing fs = foldl (extractValue valueExtractor missing) ([], []) fs"

text \<open>
  The breaks. \<open>values.sort((a, b) => a - b)\<close> sorts ascending; every method other than
  \<open>quintiles\<close> takes the equal-interval branch, whose \<open>Array.from\<close> has one entry per
  colour.
\<close>

definition computeBreaks :: "ClassificationMethod \<Rightarrow> real list \<Rightarrow> nat \<Rightarrow> jsnum list" where
  "computeBreaks m vals nColors =
     (if m = quintiles then
        (let sorted = sort vals;
             quintileSize = int (length sorted) div 5
         in [elemAt sorted 0,
             jsor (elemAt sorted quintileSize) (elemAt sorted 0),
             jsor (elemAt sorted (quintileSize * 2)) (elemAt sorted 0),
             jsor (elemAt sorted (quintileSize * 3)) (elemAt sorted 0),
             jsor (elemAt sorted (quintileSize * 4)) (elemAt sorted 0),
             elemAt sorted (int (length sorted) - 1)])
      else
        (let lo = Math_min vals;
             hi = Math_max vals;
             interval = jsdiv (jssub hi lo) (Num (real_of_int (int nColors - 1)))
         in map (\<lambda>i. jsadd lo (jsmul interval (Num (real i)))) [0..<nColors]))"

text \<open>\<open>colorScale[k]\<close>: \<open>None\<close> is \<open>undefined\<close>, read beyond the scale.\<close>

definition colorAt :: "string list \<Rightarrow> int \<Rightarrow> string option" where
  "colorAt colorScale k =
     (if 0 \<le> k \<and> k < int (length colorScale) then Some (colorScale ! nat k) else None)"

text \<open>
  The scan of the breaks from the highest to the lowest; \<open>colorForValue v breaks colorScale n\<close>
  is the loop with \<open>n\<close> breaks left to visit, entered with \<open>n = breaks.length\<close>.
\<close>

fun colorForValue :: "real \<Rightarrow> jsnum list \<Rightarrow> string list \<Rightarrow> nat \<Rightarrow> string option" where
  "colorForValue v breaks colorScale 0 = colorAt colorScale 0"
| "colorForValue v breaks colorScale (Suc i) =
     (if jsge (Num v) (breaks ! i)
      then colorAt colorScale (min (int i) (int (length colorScale) - 1))
      else colorForValue v breaks colorScale i)"

definition lookupColor ::
  "(jsval \<times> real) list \<Rightarrow> jsnum list \<Rightarrow> string list \<Rightarrow> string \<Rightarrow> real \<Rightarrow> string
     \<Rightarrow> string option" where
  "lookupColor valueMap breaks colorScale noData missing municipalityCode =
     (case mapGet valueMap (JStr municipalityCode) of
        None \<Rightarrow> Some noData
      | Some v \<Rightarrow>
          if v = missing then Some noData
          else colorForValue v breaks colorScale (length breaks))"

definition createChoroplethMapping ::
  "EnhancedMunicipalitiesGeoJSON \<Rightarrow> (MunicipalDataRecord \<Rightarrow> real) \<Rightarrow> string list
     \<Rightarrow> ChoroplethOptions \<Rightarrow> string \<Rightarrow> string option" where
  "createChoroplethMapping enhancedGeoJson valueExtractor colorScale options =
     (let m = (case method_o options of None \<Rightarrow> quintiles | Some x \<Rightarrow> x);
          noData = (case noDataColor options of None \<Rightarrow> ''#cccccc'' | Some c \<Rightarrow> c);
          missing = (case missingDataValue options of None \<Rightarrow> 0 | Some x \<Rightarrow> x);
          (vals, valueMap) = extractValues valueExtractor missing (enhancedFeatures enhancedGeoJson)
      in if vals = [] then (\<lambda>municipalityCode. Some noData)
         else lookupColor valueMap (computeBreaks m vals (length colorScale)) colorScale
                noData missing)"

section \<open>GeoJSON validation against the INEGI catalogue\<close>

text \<open>
  String operations of the validator. \<open>toLowerCase\<close> maps each capital letter of the
  Latin-1 range to its small letter, the letter at the same position of \<open>smallLetters\<close>;
  \<open>toStringInt\<close> is \<open>toString\<close> on an integer;
  \<open>parseInt\<close> reads the leading decimal digits of a string (\<open>None\<close> is \<open>NaN\<close>), which
  is all that the catalogue codes need.
\<close>

definition capitalLetters :: string where
  "capitalLetters =
     ''ABCDEFGHIJKLMNOPQRSTUVWXYZ''
     @ [CHR 0xC0, CHR 0xC1, CHR 0xC2, CHR 0xC3, CHR 0xC4, CHR 0xC5, CHR 0xC6, CHR 0xC7,
          CHR 0xC8, CHR 0xC9, CHR 0xCA, CHR 0xCB, CHR 0xCC, CHR 0xCD, CHR 0xCE, CHR 0xCF,
          CHR 0xD0, CHR 0xD1, CHR 0xD2, CHR 0xD3, CHR 0xD4, CHR 0xD5, CHR 0xD6, CHR 0xD8,
          CHR 0xD9, CHR 0xDA, CHR 0xDB, CHR 0xDC, CHR 0xDD, CHR 0xDE]"

definition smallLetters :: string where
  "smallLetters =
     ''abcdefghijklmnopqrstuvwxyz''
     @ [CHR 0xE0, CHR 0xE1, CHR 0xE2, CHR 0xE3, CHR 0xE4, CHR 0xE5, CHR 0xE6, CHR 0xE7,
          CHR 0xE8, CHR 0xE9, CHR 0xEA, CHR 0xEB, CHR 0xEC, CHR 0xED, CHR 0xEE, CHR 0xEF,
          CHR 0xF0, CHR 0xF1, CHR 0xF2, CHR 0xF3, CHR 0xF4, CHR 0xF5, CHR 0xF6, CHR 0xF8,
          CHR 0xF9, CHR 0xFA, CHR 0xFB, CHR 0xFC, CHR 0xFD, CHR 0xFE]"

definition lowerChar :: "char \<Rightarrow> char" where
  "lowerChar c = (case map_of (zip capitalLetters smallLetters) c of None \<Rightarrow> c | Some l \<Rightarrow> l)"

definition toLowerCase :: "string \<Rightarrow> string" where
  "toLowerCase s = map lowerChar s"

definition digitChar :: "nat \<Rightarrow> char" where
  "digitChar d = ''0123456789'' ! d"

fun digitsOf :: "nat \<Rightarrow> string" where
  "digitsOf n = (if n < 10 then [digitChar n] else digitsOf (n div 10) @ [digitChar (n mod 10)])"

definition toStringInt :: "int \<Rightarrow> string" where
  "toStringInt i = (if i < 0 then CHR ''-'' # digitsOf (nat (- i)) else digitsOf (nat i))"

definition padStart :: "string \<Rightarrow> nat \<Rightarrow> char \<Rightarrow> string" where
  "padStart s n c = replicate (n - length s) c @ s"

definition digitValue :: "char \<Rightarrow> int option" where
  "digitValue c = map_of (zip ''0123456789'' [0, 1, 2, 3, 4, 5, 6, 7, 8, 9]) c"

definition parseInt :: "string \<Rightarrow> int option" where
  "parseInt s =
     (let ds = takeWhile (\<lambda>c. digitValue c \<noteq> None) s
      in if ds = [] then None
         else Some (foldl (\<lambda>acc c. 10 * acc + (case digitValue c of None \<Rightarrow> 0 | Some d \<Rightarrow> d))
                      0 ds))"

definition showParsed :: "int option \<Rightarrow> string" where
  "showParsed n = (case n of None \<Rightarrow> ''NaN'' | Some i \<Rightarrow> toStringInt i)"

text \<open>
  The catalogue. The optional fields \<open>cabecera\<close>, \<open>superficie\<close> and \<open>poblacion\<close> are
  never set in the table and are left out.
\<close>

record INEGIMunicipalityData =
  clave :: string
  nombre_i :: string
  nombreCompleto :: "string option"

definition INEGI_GUANAJUATO_MUNICIPALITIES :: "INEGIMunicipalityData list" where
  "INEGI_GUANAJUATO_MUNICIPALITIES =
  [
    \<lparr>clave = ''11001'', nombre_i = ''Abasolo'', nombreCompleto = None\<rparr>,
    \<lparr>clave = ''11002'', nombre_i = ''Ac'' @ [CHR 0xE1] @ ''mbaro'', nombreCompleto = None\<rparr>,
    \<lparr>clave = ''11003'', nombre_i = ''San Miguel de Allende'', nombreCompleto = None\<rparr>,
    \<lparr>clave = ''11004'', nombre_i = ''Apaseo el Alto'', nombreCompleto = None\<rparr>,
    \<lparr>clave = ''11005'', nombre_i = ''Apaseo el Grande'', nombreCompleto = None\<rparr>,
    \<lparr>clave = ''11006'', nombre_i = ''Atarjea'', nombreCompleto = None\<rparr>,
    \<lparr>clave = ''11007'', nombre_i = ''Celaya'', nombreCompleto = None\<rparr>,
    \<lparr>clave = ''11008'', nombre_i = ''Manuel Doblado'', nombreCompleto = None\<rparr>,
    \<lparr>clave = ''11009'', nombre_i = ''Comonfort'', nombreCompleto = None\<rparr>,
    \<lparr>clave = ''11010'', nombre_i = ''Coroneo'', nombreCompleto = None\<rparr>,
    \<lparr>clave = ''11011'', nombre_i = ''Cortazar'', nombreCompleto = None\<rparr>,
    \<lparr>clave = ''11012'', nombre_i = ''Cuer'' @ [CHR 0xE1] @ ''maro'', nombreCompleto = None\<rparr>,
    \<lparr>clave = ''11013'', nombre_i = ''Doctor Mora'', nombreCompleto = None\<rparr>,
    \<lparr>clave = ''11014'', nombre_i = ''Dolores Hidalgo Cuna de la Independencia Nacional'', nombreCompleto = None\<rparr>,
    \<lparr>clave = ''11015'', nombre_i = ''Guanajuato'', nombreCompleto = None\<rparr>,
    \<lparr>clave = ''11016'', nombre_i = ''Huan'' @ [CHR 0xED] @ ''maro'', nombreCompleto = None\<rparr>,
    \<lparr>clave = ''11017'', nombre_i = ''Irapuato'', nombreCompleto = None\<rparr>,
    \<lparr>clave = ''11018'', nombre_i = ''Jaral del Progreso'', nombreCompleto = None\<rparr>,
    \<lparr>clave = ''11019'', nombre_i = ''Jer'' @ [CHR 0xE9] @ ''cuaro'', nombreCompleto = None\<rparr>,
    \<lparr>clave = ''11020'', nombre_i = ''Le'' @ [CHR 0xF3] @ ''n'', nombreCompleto = None\<rparr>,
    \<lparr>clave = ''11021'', nombre_i = ''Morole'' @ [CHR 0xF3] @ ''n'', nombreCompleto = None\<rparr>,
    \<lparr>clave = ''11022'', nombre_i = ''Ocampo'', nombreCompleto = None\<rparr>,
    \<lparr>clave = ''11023'', nombre_i = ''P'' @ [CHR 0xE9] @ ''njamo'', nombreCompleto = None\<rparr>,
    \<lparr>clave = ''11024'', nombre_i = ''Pueblo Nuevo'', nombreCompleto = None\<rparr>,
    \<lparr>clave = ''11025'', nombre_i = ''Pur'' @ [CHR 0xED] @ ''sima del Rinc'' @ [CHR 0xF3] @ ''n'', nombreCompleto = None\<rparr>,
    \<lparr>clave = ''11026'', nombre_i = ''Romita'', nombreCompleto = None\<rparr>,
    \<lparr>clave = ''11027'', nombre_i = ''Salamanca'', nombreCompleto = None\<rparr>,
    \<lparr>clave = ''11028'', nombre_i = ''Salvatierra'', nombreCompleto = None\<rparr>,
    \<lparr>clave = ''11029'', nombre_i = ''San Diego de la Uni'' @ [CHR 0xF3] @ ''n'', nombreCompleto = None\<rparr>,
    \<lparr>clave = ''11030'', nombre_i = ''San Felipe'', nombreCompleto = None\<rparr>,
    \<lparr>clave = ''11031'', nombre_i = ''San Francisco del Rinc'' @ [CHR 0xF3] @ ''n'', nombreCompleto = None\<rparr>,
    \<lparr>clave = ''11032'', nombre_i = ''San Jos'' @ [CHR 0xE9] @ '' Iturbide'', nombreCompleto = None\<rparr>,
    \<lparr>clave = ''11033'', nombre_i = ''San Luis de la Paz'', nombreCompleto = None\<rparr>,
    \<lparr>clave = ''11034'', nombre_i = ''Santa Catarina'', nombreCompleto = None\<rparr>,
    \<lparr>clave = ''11035'', nombre_i = ''Santa Cruz de Juventino Rosas'', nombreCompleto = None\<rparr>,
    \<lparr>clave = ''11036'', nombre_i = ''Santiago Maravat'' @ [CHR 0xED] @ ''o'', nombreCompleto = None\<rparr>,
    \<lparr>clave = ''11037'', nombre_i = ''Silao de la Victoria'', nombreCompleto = Some ''Silao de la Victoria''\<rparr>,
    \<lparr>clave = ''11038'', nombre_i = ''Tarandacuao'', nombreCompleto = None\<rparr>,
    \<lparr>clave = ''11039'', nombre_i = ''Tarimoro'', nombreCompleto = None\<rparr>,
    \<lparr>clave = ''11040'', nombre_i = ''Tierra Blanca'', nombreCompleto = None\<rparr>,
    \<lparr>clave = ''11041'', nombre_i = ''Uriangato'', nombreCompleto = None\<rparr>,
    \<lparr>clave = ''11042'', nombre_i = ''Valle de Santiago'', nombreCompleto = None\<rparr>,
    \<lparr>clave = ''11043'', nombre_i = ''Victoria'', nombreCompleto = None\<rparr>,
    \<lparr>clave = ''11044'', nombre_i = ''Villagr'' @ [CHR 0xE1] @ ''n'', nombreCompleto = None\<rparr>,
    \<lparr>clave = ''11045'', nombre_i = ''Xich'' @ [CHR 0xFA], nombreCompleto = None\<rparr>,
    \<lparr>clave = ''11046'', nombre_i = ''Yuriria'', nombreCompleto = None\<rparr>]"

datatype ValidationIssueType =
  missing_municipality | extra_municipality | wrong_code | wrong_name | invalid_geometry
  | missing_properties | invalid_state_code

datatype Severity = Error | Warning | Info

text \<open>
  The field \<open>type\<close> of an issue is \<open>issueType\<close> here, and the field \<open>info\<close> of the
  summary is \<open>infos\<close>.
\<close>

record ValidationIssue =
  issueType :: ValidationIssueType
  severity :: Severity
  municipality :: "string option"
  expected :: "string option"
  actual :: "string option"
  description :: string
  suggestion :: "string option"

record SeveritySummary =
  errors :: nat
  warnings :: nat
  infos :: nat

record ValidationReport =
  isValid :: bool
  totalMunicipalities :: nat
  expectedMunicipalities :: nat
  issues :: "ValidationIssue list"
  summary :: SeveritySummary

definition inegiByCode :: "(string \<times> INEGIMunicipalityData) list" where
  "inegiByCode = foldl (\<lambda>m mun. mapSet m (clave mun) mun) [] INEGI_GUANAJUATO_MUNICIPALITIES"

definition inegiByName :: "(string \<times> INEGIMunicipalityData) list" where
  "inegiByName =
     foldl (\<lambda>m mun. mapSet m (toLowerCase (nombre_i mun)) mun) [] INEGI_GUANAJUATO_MUNICIPALITIES"

text \<open>
  The catalogue check of one feature whose three required properties are present:
  the issue, if any, that the four-way comparison of the code match and the name match adds.
\<close>

definition catalogIssue ::
  "int \<Rightarrow> string \<Rightarrow> string \<Rightarrow> INEGIMunicipalityData option \<Rightarrow> INEGIMunicipalityData option
     \<Rightarrow> ValidationIssue list" where
  "catalogIssue munCode munName expectedCode byCode byName =
     (case (byCode, byName) of
        (None, None) \<Rightarrow>
          [\<lparr>issueType = missing_municipality, severity = Error,
            municipality = Some munName,
            expected = Some ''Valid INEGI municipality'',
            actual = Some (munName @ '' ('' @ expectedCode @ '')''),
            description = ''Municipality not found in official INEGI catalog'',
            suggestion = Some ''Verify municipality name and code against INEGI data''\<rparr>]
      | (Some c, Some n) \<Rightarrow> []
      | (Some c, None) \<Rightarrow>
          [\<lparr>issueType = wrong_name, severity = Warning,
            municipality = Some munName,
            expected = Some (nombre_i c),
            actual = Some munName,
            description = ''Municipality name doesn'' @ [CHR 0x27] @ ''t match INEGI official name'',
            suggestion = Some (''Consider using official name: '' @ [CHR 0x22] @ nombre_i c
                                 @ [CHR 0x22])\<rparr>]
      | (None, Some n) \<Rightarrow>
          (let correctCode = clave n;
               correctMunCode = parseInt (drop 2 correctCode)
           in [\<lparr>issueType = wrong_code, severity = Error,
                municipality = Some munName,
                expected = Some (''mun_code: '' @ showParsed correctMunCode),
                actual = Some (''mun_code: '' @ toStringInt munCode),
                description = ''Municipality code doesn'' @ [CHR 0x27]
                                @ ''t match INEGI official code'',
                suggestion = Some (''Change mun_code from '' @ toStringInt munCode @ '' to ''
                                     @ showParsed correctMunCode)\<rparr>]))"

text \<open>
  The state of the loop over the features: the issues so far, \<open>foundCodes\<close> and
  \<open>foundNames\<close>. A feature that lacks a required property (absent, zero or the empty
  string) adds one issue and is skipped.
\<close>

definition validateFeature ::
  "ValidationIssue list \<times> string list \<times> string list \<Rightarrow> nat \<times> MunicipalityProperties Feature
     \<Rightarrow> ValidationIssue list \<times> string list \<times> string list" where
  "validateFeature st indexed =
     (let (issuesSoFar, foundCodes, foundNames) = st;
          (index, feature) = indexed;
          props = properties feature;
          missingProps =
            (issuesSoFar @
               [\<lparr>issueType = missing_properties, severity = Error,
                 municipality = Some (''Feature '' @ toStringInt (int index)),
                 expected = None, actual = None,
                 description = ''Missing required properties (state_code, mun_code, mun_name)'',
                 suggestion = Some ''Add missing properties to GeoJSON feature''\<rparr>],
             foundCodes, foundNames)
      in case (state_code props, mun_code props, mun_name props) of
           (Some stateCode, Some munCode, Some munName) \<Rightarrow>
             if stateCode = 0 \<or> munCode = 0 \<or> munName = [] then missingProps
             else
               (let stateIssue =
                      (if stateCode \<noteq> 11
                       then [\<lparr>issueType = invalid_state_code, severity = Error,
                              municipality = Some munName,
                              expected = Some ''11'',
                              actual = Some (toStringInt stateCode),
                              description = ''Invalid state code for Guanajuato'',
                              suggestion = Some ''State code should be 11 for Guanajuato''\<rparr>]
                       else []);
                    expectedCode = ''11'' @ padStart (toStringInt munCode) 3 CHR ''0'';
                    byCode = mapGet inegiByCode expectedCode;
                    byName = mapGet inegiByName (toLowerCase munName);
                    geometryIssue =
                      (if (case geometry feature of None \<Rightarrow> True
                           | Some g \<Rightarrow> coordinates g = None)
                       then [\<lparr>issueType = invalid_geometry, severity = Error,
                              municipality = Some munName,
                              expected = None, actual = None,
                              description = ''Invalid or missing geometry'',
                              suggestion =
                                Some ''Ensure feature has valid geometry with coordinates''\<rparr>]
                       else [])
                in (issuesSoFar @ stateIssue
                      @ catalogIssue munCode munName expectedCode byCode byName @ geometryIssue,
                    setAdd foundCodes expectedCode,
                    setAdd foundNames (toLowerCase munName)))
         | _ \<Rightarrow> missingProps)"

definition missingMunicipality ::
  "string list \<Rightarrow> string list \<Rightarrow> ValidationIssue list \<Rightarrow> INEGIMunicipalityData
     \<Rightarrow> ValidationIssue list" where
  "missingMunicipality foundCodes foundNames issuesSoFar inegiMun =
     (if clave inegiMun \<notin> set foundCodes \<and> toLowerCase (nombre_i inegiMun) \<notin> set foundNames
      then issuesSoFar @
             [\<lparr>issueType = missing_municipality, severity = Warning,
               municipality = Some (nombre_i inegiMun),
               expected = Some (clave inegiMun),
               actual = None,
               description = ''Official municipality missing from GeoJSON'',
               suggestion = Some (''Add '' @ nombre_i inegiMun @ '' ('' @ clave inegiMun
                                    @ '') to GeoJSON'')\<rparr>]
      else issuesSoFar)"

definition countSeverity :: "Severity \<Rightarrow> ValidationIssue list \<Rightarrow> nat" where
  "countSeverity s is = length (filter (\<lambda>i. severity i = s) is)"

definition validateGeoJSONIntegrity :: "MunicipalitiesGeoJSON \<Rightarrow> ValidationReport" where
  "validateGeoJSONIntegrity geoJsonData =
     (case features geoJsonData of
        None \<Rightarrow>
          \<lparr>isValid = False,
           totalMunicipalities = 0,
           expectedMunicipalities = length INEGI_GUANAJUATO_MUNICIPALITIES,
           issues =
             [\<lparr>issueType = missing_properties, severity = Error,
               municipality = None, expected = None, actual = None,
               description = ''GeoJSON does not have valid features array'',
               suggestion = Some (''Ensure GeoJSON has '' @ [CHR 0x22] @ ''features''
                                    @ [CHR 0x22] @ '' array property'')\<rparr>],
           summary = \<lparr>errors = 1, warnings = 0, infos = 0\<rparr>\<rparr>
      | Some fs \<Rightarrow>
          (let (featureIssues, foundCodes, foundNames) =
                 foldl validateFeature ([], [], []) (zip [0..<length fs] fs);
               allIssues =
                 foldl (missingMunicipality foundCodes foundNames) featureIssues
                   INEGI_GUANAJUATO_MUNICIPALITIES;
               counts = \<lparr>errors = countSeverity Error allIssues,
                         warnings = countSeverity Warning allIssues,
                         infos = countSeverity Info allIssues\<rparr>
           in \<lparr>isValid = (errors counts = 0),
               totalMunicipalities = length fs,
               expectedMunicipalities = length INEGI_GUANAJUATO_MUNICIPALITIES,
               issues = allIssues,
               summary = counts\<rparr>))"

section \<open>Layer configuration\<close>

text \<open>
  Field names that other records of this development already use carry the suffix
  \<open>_c\<close> here. \<open>ATLAS_LAYERS\<close> is listed in the order of its keys, the order in which
  \<open>Object.entries\<close> enumerates it.
\<close>

datatype ConfigVisualization = cfg_choropleth | cfg_heatmap | cfg_markers | cfg_hybrid

record LayerMetadata =
  source_c :: string
  lastUpdated_c :: string
  unit_c :: string
  methodology :: "string option"

record AtlasLayerConfig =
  id_c :: string
  name_c :: string
  description_c :: string
  dataSource_c :: string
  visualization :: ConfigVisualization
  color :: string
  isActive :: bool
  group_c :: string
  order_c :: int
  metadata_c :: LayerMetadata

definition ATLAS_LAYERS :: "(string \<times> AtlasLayerConfig) list" where
  "ATLAS_LAYERS =
    [(''indice_riesgo'',
   \<lparr>id_c = ''indice_riesgo'',
    name_c = [CHR 0xCD] @ ''ndice de Riesgo'',
    description_c = [CHR 0xCD] @ ''ndice compuesto de riesgo para mujeres buscadoras por municipio (0-100)'',
    dataSource_c = ''/data/indice_riesgo.json'',
    visualization = cfg_choropleth, color = ''#6580A4'', isActive = True,
    group_c = ''principal'', order_c = 1,
    metadata_c = \<lparr>source_c = ''Gobierno del Estado de Guanajuato'',
                  lastUpdated_c = ''2024-01'', unit_c = [CHR 0xED] @ ''ndice 0-100'',
                  methodology = Some (''Promedio ponderado de 6 variables de riesgo'')\<rparr>\<rparr>),
    (''desapariciones'',
   \<lparr>id_c = ''desapariciones'',
    name_c = ''Desapariciones'',
    description_c = ''Casos de desaparici'' @ [CHR 0xF3] @ ''n por municipio con visualizaci'' @ [CHR 0xF3] @ ''n de densidad'',
    dataSource_c = ''/data/desapariciones_mun.json'',
    visualization = cfg_hybrid, color = ''#F45197'', isActive = False,
    group_c = ''factores_riesgo'', order_c = 2,
    metadata_c = \<lparr>source_c = ''Registro Nacional de Personas Desaparecidas (RNPDNO)'',
                  lastUpdated_c = ''2024-01'', unit_c = ''casos'',
                  methodology = None\<rparr>\<rparr>),
    (''homicidios'',
   \<lparr>id_c = ''homicidios'',
    name_c = ''Homicidios'',
    description_c = ''Homicidios dolosos por municipio con mapa de calor'',
    dataSource_c = ''/data/homicidio_mun.json'',
    visualization = cfg_hybrid, color = ''#FF8200'', isActive = False,
    group_c = ''factores_riesgo'', order_c = 3,
    metadata_c = \<lparr>source_c = ''Secretariado Ejecutivo del SNSP'',
                  lastUpdated_c = ''2024-01'', unit_c = ''casos'',
                  methodology = None\<rparr>\<rparr>),
    (''tomas_clandestinas'',
   \<lparr>id_c = ''tomas_clandestinas'',
    name_c = ''Tomas Clandestinas'',
    description_c = ''Densidad de tomas clandestinas de combustible por municipio'',
    dataSource_c = ''/data/tomas_clandestinas.json'',
    visualization = cfg_heatmap, color = ''#FF8200'', isActive = False,
    group_c = ''factores_riesgo'', order_c = 4,
    metadata_c = \<lparr>source_c = ''PEMEX / Secretar'' @ [CHR 0xED] @ ''a de Seguridad P'' @ [CHR 0xFA] @ ''blica'',
                  lastUpdated_c = ''2024-01'', unit_c = ''por km'' @ [CHR 0xB2],
                  methodology = None\<rparr>\<rparr>),
    (''rezago_social'',
   \<lparr>id_c = ''rezago_social'',
    name_c = ''Rezago Social'',
    description_c = [CHR 0xCD] @ ''ndice de rezago social municipal por quintiles'',
    dataSource_c = ''/data/rezago_municipal.json'',
    visualization = cfg_choropleth, color = ''#32AA00'', isActive = False,
    group_c = ''socioeconomico'', order_c = 5,
    metadata_c = \<lparr>source_c = ''CONEVAL'',
                  lastUpdated_c = ''2020'', unit_c = ''quintiles'',
                  methodology = None\<rparr>\<rparr>),
    (''capacidad_instalada'',
   \<lparr>id_c = ''capacidad_instalada'',
    name_c = ''Capacidad Institucional'',
    description_c = ''Infraestructura institucional disponible para b'' @ [CHR 0xFA] @ ''squeda'',
    dataSource_c = ''/data/capacidad_instalada.json'',
    visualization = cfg_markers, color = ''#00A99D'', isActive = False,
    group_c = ''institucional'', order_c = 6,
    metadata_c = \<lparr>source_c = ''Secretar'' @ [CHR 0xED] @ ''a de Desarrollo Social'',
                  lastUpdated_c = ''2024-01'', unit_c = ''instituciones'',
                  methodology = None\<rparr>\<rparr>)]"

section \<open>Layer manager\<close>

datatype LayerVisualizationType = choropleth | heatmap | markers | none

text \<open>
  The state of one layer; \<open>lastUpdated_l\<close> is a \<open>Date\<close>, modelled as a time stamp.
  Field names used before carry the suffix \<open>_l\<close>.
\<close>

record LayerState =
  id_l :: string
  name_l :: string
  description_l :: string
  isVisible :: bool
  isLoading :: bool
  hasData_l :: bool
  visualizationType :: LayerVisualizationType
  config :: AtlasLayerConfig
  dataCount :: "int option"
  lastUpdated_l :: "nat option"

text \<open>
  The manager holds references. \<open>heap\<close> is the store of \<open>LayerState\<close> objects, an
  object being addressed by its position; \<open>layers\<close> is the \<open>Map\<close> from a layer id to
  the address of its object; \<open>arrays\<close> is the store of the arrays that \<open>getLayers\<close>
  has allocated, each the list of the object addresses it holds. A listener is
  identified by a handle and is an observer: a call to it is recorded in \<open>calls\<close> as the
  handle, the address of the array it receives and the layer states that this array
  shows at the time of the call. The console output is not modelled.
\<close>

record AtlasLayerManager =
  heap :: "LayerState list"
  layers :: "(string \<times> nat) list"
  arrays :: "nat list list"
  listeners :: "nat list"
  calls :: "(nat \<times> nat \<times> LayerState list) list"

definition determineVisualizationType :: "AtlasLayerConfig \<Rightarrow> LayerVisualizationType" where
  "determineVisualizationType cfg =
     (if id_c cfg = ''indice_riesgo'' \<or> id_c cfg = ''rezago_social'' then choropleth
      else if id_c cfg = ''desapariciones'' \<or> id_c cfg = ''homicidios''
              \<or> id_c cfg = ''tomas_clandestinas'' then heatmap
      else if id_c cfg = ''capacidad_instalada'' then markers
      else choropleth)"

text \<open>The object that \<open>initializeLayers\<close> creates for one entry of the configuration.\<close>

definition newLayerState :: "string \<Rightarrow> AtlasLayerConfig \<Rightarrow> LayerState" where
  "newLayerState ident cfg =
     \<lparr>id_l = ident,
      name_l = name_c cfg,
      description_l = description_c cfg,
      isVisible = (ident = ''indice_riesgo''),
      isLoading = False,
      hasData_l = False,
      visualizationType = determineVisualizationType cfg,
      config = cfg,
      dataCount = None,
      lastUpdated_l = None\<rparr>"

definition initializeLayer :: "AtlasLayerManager \<Rightarrow> string \<times> AtlasLayerConfig \<Rightarrow> AtlasLayerManager" where
  "initializeLayer s entry =
     s\<lparr>heap := heap s @ [newLayerState (fst entry) (snd entry)],
       layers := mapSet (layers s) (fst entry) (length (heap s))\<rparr>"

definition initializeLayers :: "AtlasLayerManager \<Rightarrow> AtlasLayerManager" where
  "initializeLayers s = foldl initializeLayer s ATLAS_LAYERS"

text \<open>The constructor, and with it the exported singleton \<open>layerManager\<close>.\<close>

definition layerManager :: AtlasLayerManager where
  "layerManager =
     initializeLayers \<lparr>heap = [], layers = [], arrays = [], listeners = [], calls = []\<rparr>"

text \<open>\<open>getLayers\<close> allocates an array of the object references and returns its address.\<close>

definition getLayers :: "AtlasLayerManager \<Rightarrow> nat \<times> AtlasLayerManager" where
  "getLayers s = (length (arrays s), s\<lparr>arrays := arrays s @ [map snd (layers s)]\<rparr>)"

text \<open>What the array at address \<open>a\<close> shows in state \<open>s\<close>: its elements, dereferenced.\<close>

definition view :: "AtlasLayerManager \<Rightarrow> nat \<Rightarrow> LayerState list" where
  "view s a = map (\<lambda>r. heap s ! r) (arrays s ! a)"

definition getLayer :: "AtlasLayerManager \<Rightarrow> string \<Rightarrow> LayerState option" where
  "getLayer s ident = map_option (\<lambda>r. heap s ! r) (mapGet (layers s) ident)"

definition subscribe :: "nat \<Rightarrow> AtlasLayerManager \<Rightarrow> AtlasLayerManager" where
  "subscribe listener s = s\<lparr>listeners := setAdd (listeners s) listener\<rparr>"

definition unsubscribe :: "nat \<Rightarrow> AtlasLayerManager \<Rightarrow> AtlasLayerManager" where
  "unsubscribe listener s = s\<lparr>listeners := removeAll listener (listeners s)\<rparr>"

definition callListener :: "nat \<Rightarrow> AtlasLayerManager \<Rightarrow> nat \<Rightarrow> AtlasLayerManager" where
  "callListener a s listener = s\<lparr>calls := calls s @ [(listener, a, view s a)]\<rparr>"

definition notifyListeners :: "AtlasLayerManager \<Rightarrow> AtlasLayerManager" where
  "notifyListeners s = (let (a, s') = getLayers s in foldl (callListener a) s' (listeners s'))"

definition toggleLayer :: "string \<Rightarrow> AtlasLayerManager \<Rightarrow> bool \<times> AtlasLayerManager" where
  "toggleLayer ident s =
     (case mapGet (layers s) ident of
        None \<Rightarrow> (False, s)
      | Some r \<Rightarrow>
          (let layer = (heap s ! r)\<lparr>isVisible := \<not> isVisible (heap s ! r)\<rparr>;
               s' = notifyListeners (s\<lparr>heap := (heap s)[r := layer]\<rparr>)
           in (isVisible (heap s' ! r), s')))"

definition setLayerVisibility ::
  "string \<Rightarrow> bool \<Rightarrow> AtlasLayerManager \<Rightarrow> bool \<times> AtlasLayerManager" where
  "setLayerVisibility ident visible s =
     (case mapGet (layers s) ident of
        None \<Rightarrow> (False, s)
      | Some r \<Rightarrow>
          if isVisible (heap s ! r) \<noteq> visible
          then (True, notifyListeners (s\<lparr>heap := (heap s)[r := (heap s ! r)\<lparr>isVisible := visible\<rparr>]\<rparr>))
          else (True, s))"

text \<open>
  \<open>this.layers.forEach((layer, layerId) => ...)\<close>: every entry of the map in turn, the
  object it refers to being replaced by its updated state.
\<close>

definition forEachLayer ::
  "(string \<Rightarrow> LayerState \<Rightarrow> LayerState) \<Rightarrow> AtlasLayerManager \<Rightarrow> AtlasLayerManager" where
  "forEachLayer f s =
     s\<lparr>heap := foldl (\<lambda>h entry. h[snd entry := f (fst entry) (h ! snd entry)]) (heap s) (layers s)\<rparr>"

definition setLayerLoading :: "string \<Rightarrow> bool \<Rightarrow> AtlasLayerManager \<Rightarrow> AtlasLayerManager" where
  "setLayerLoading ident loading s =
     (case mapGet (layers s) ident of
        None \<Rightarrow> s
      | Some r \<Rightarrow> notifyListeners (s\<lparr>heap := (heap s)[r := (heap s ! r)\<lparr>isLoading := loading\<rparr>]\<rparr>))"

text \<open>\<open>now\<close> stands for \<open>new Date()\<close>.\<close>

definition setLayerData ::
  "nat \<Rightarrow> string \<Rightarrow> bool \<Rightarrow> int option \<Rightarrow> AtlasLayerManager \<Rightarrow> AtlasLayerManager" where
  "setLayerData now ident present count s =
     (case mapGet (layers s) ident of
        None \<Rightarrow> s
      | Some r \<Rightarrow>
          notifyListeners
            (s\<lparr>heap := (heap s)[r := (heap s ! r)\<lparr>hasData_l := present, dataCount := count,
                                                  lastUpdated_l := Some now\<rparr>]\<rparr>))"

definition showOnlyLayer :: "string \<Rightarrow> AtlasLayerManager \<Rightarrow> AtlasLayerManager" where
  "showOnlyLayer ident s =
     notifyListeners (forEachLayer (\<lambda>layerId layer. layer\<lparr>isVisible := (layerId = ident)\<rparr>) s)"

definition hideAllLayers :: "AtlasLayerManager \<Rightarrow> AtlasLayerManager" where
  "hideAllLayers s = notifyListeners (forEachLayer (\<lambda>layerId layer. layer\<lparr>isVisible := False\<rparr>) s)"

definition reset :: "AtlasLayerManager \<Rightarrow> AtlasLayerManager" where
  "reset s =
     notifyListeners
       (forEachLayer
          (\<lambda>layerId layer. layer\<lparr>isVisible := (id_l layer = ''indice_riesgo''),
                                 isLoading := False, hasData_l := False,
                                 dataCount := None, lastUpdated_l := None\<rparr>) s)"

text \<open>
  The reading operations. \<open>filter\<close> allocates the array it returns, as \<open>getLayers\<close>
  does; \<open>filterLayers\<close> is \<open>this.getLayers().filter(p)\<close>.
\<close>

definition filterLayers ::
  "(LayerState \<Rightarrow> bool) \<Rightarrow> AtlasLayerManager \<Rightarrow> nat \<times> AtlasLayerManager" where
  "filterLayers p s =
     (let (a, s') = getLayers s
      in (length (arrays s'),
          s'\<lparr>arrays := arrays s' @ [filter (\<lambda>r. p (heap s' ! r)) (arrays s' ! a)]\<rparr>))"

definition getVisibleLayers :: "AtlasLayerManager \<Rightarrow> nat \<times> AtlasLayerManager" where
  "getVisibleLayers s = filterLayers isVisible s"

definition getLayersByType ::
  "LayerVisualizationType \<Rightarrow> AtlasLayerManager \<Rightarrow> nat \<times> AtlasLayerManager" where
  "getLayersByType t s = filterLayers (\<lambda>layer. visualizationType layer = t) s"

text \<open>The statistics; the fields carry the suffix \<open>_s\<close>.\<close>

record LayerStatistics =
  total_s :: nat
  visible_s :: nat
  withData_s :: nat
  loading_s :: nat
  byType_s :: "(LayerVisualizationType \<times> nat) list"

definition getStatistics :: "AtlasLayerManager \<Rightarrow> LayerStatistics \<times> AtlasLayerManager" where
  "getStatistics s =
     (let (a, s') = getLayers s;
          refs = arrays s' ! a;
          shown = filter (\<lambda>r. isVisible (heap s' ! r)) refs;
          filled = filter (\<lambda>r. hasData_l (heap s' ! r)) refs;
          busy = filter (\<lambda>r. isLoading (heap s' ! r)) refs;
          countOf = (\<lambda>t. length (filter (\<lambda>r. visualizationType (heap s' ! r) = t) refs))
      in (\<lparr>total_s = length refs,
           visible_s = length shown,
           withData_s = length filled,
           loading_s = length busy,
           byType_s = [(choropleth, countOf choropleth), (heatmap, countOf heatmap),
                       (markers, countOf markers), (none, countOf none)]\<rparr>,
          s'\<lparr>arrays := arrays s' @ [shown, filled, busy]\<rparr>))"

text \<open>
  The operations of the manager as values, and the state after a sequence of them.
  \<open>Unsubscribe\<close> is the function that \<open>subscribe\<close> returns.
\<close>

datatype Operation =
  GetLayers
  | GetVisibleLayers
  | GetLayer string
  | ToggleLayer string
  | SetLayerVisibility string bool
  | SetLayerLoading string bool
  | SetLayerData nat string bool "int option"
  | ShowOnlyLayer string
  | HideAllLayers
  | GetLayersByType LayerVisualizationType
  | GetStatistics
  | Subscribe nat
  | Unsubscribe nat
  | Reset

fun perform :: "Operation \<Rightarrow> AtlasLayerManager \<Rightarrow> AtlasLayerManager" where
  "perform GetLayers s = snd (getLayers s)"
| "perform GetVisibleLayers s = snd (getVisibleLayers s)"
| "perform (GetLayer ident) s = s"
| "perform (ToggleLayer ident) s = snd (toggleLayer ident s)"
| "perform (SetLayerVisibility ident v) s = snd (setLayerVisibility ident v s)"
| "perform (SetLayerLoading ident v) s = setLayerLoading ident v s"
| "perform (SetLayerData now ident present count) s = setLayerData now ident present count s"
| "perform (ShowOnlyLayer ident) s = showOnlyLayer ident s"
| "perform HideAllLayers s = hideAllLayers s"
| "perform (GetLayersByType t) s = snd (getLayersByType t s)"
| "perform GetStatistics s = snd (getStatistics s)"
| "perform (Subscribe listener) s = subscribe listener s"
| "perform (Unsubscribe listener) s = unsubscribe listener s"
| "perform Reset s = reset s"

definition performAll :: "Operation list \<Rightarrow> AtlasLayerManager \<Rightarrow> AtlasLayerManager" where
  "performAll ops s = foldl (\<lambda>st op. perform op st) s ops"

section \<open>Properties stated over the model, and the inputs of the scenarios\<close>

text \<open>A sequence of breaks is non-decreasing when \<open>breaks[i] <= breaks[i+1]\<close> holds for every adjacent pair.\<close>

fun nonDecreasing :: "jsnum list \<Rightarrow> bool" where
  "nonDecreasing (a # b # bs) = (jsle a b \<and> nonDecreasing (b # bs))"
| "nonDecreasing bs = True"

text \<open>A value extractor: the numeric field \<open>indice\<close> of a record, zero when it is absent.\<close>

definition indice :: "MunicipalDataRecord \<Rightarrow> real" where
  "indice r = (case map_of (extra r) ''indice'' of Some (JNum x) \<Rightarrow> x | _ \<Rightarrow> 0)"

definition squareGeometry :: Geometry where
  "squareGeometry =
     \<lparr>geometryType = Polygon,
      coordinates = Some (PolygonRings [[[0, 0], [1, 0], [1, 1], [0, 1], [0, 0]]])\<rparr>"

text \<open>
  Scenario D: one feature with state code 11 and municipality code 20 whose name is
  written \<open>Leon\<close>, without the accent of the catalogue.
\<close>

definition scenarioD :: MunicipalitiesGeoJSON where
  "scenarioD =
     \<lparr>features = Some
        [\<lparr>geometry = Some squareGeometry,
          properties = \<lparr>state_code = Some 11, mun_code = Some 20, mun_name = Some ''Leon'',
                        cvegeo = None, nombre = None, other = []\<rparr>\<rparr>]\<rparr>"

text \<open>A collection of two features, the second without code, and a file of three records.\<close>

definition twoFeatures :: MunicipalitiesGeoJSON where
  "twoFeatures =
     \<lparr>features = Some
        [\<lparr>geometry = Some squareGeometry,
          properties = \<lparr>state_code = Some 11, mun_code = Some 7, mun_name = Some ''Celaya'',
                        cvegeo = Some ''11007'', nombre = Some ''Celaya'', other = []\<rparr>\<rparr>,
         \<lparr>geometry = Some squareGeometry,
          properties = \<lparr>state_code = Some 11, mun_code = Some 17, mun_name = Some ''Irapuato'',
                        cvegeo = None, nombre = None, other = []\<rparr>\<rparr>]\<rparr>"

definition threeRecords :: DataFile where
  "threeRecords =
     \<lparr>version = ''1.0'', source = None, updated = None, metadata = None,
      records = [\<lparr>municipio = ''11007'', extra = [(''indice'', JNum 10)]\<rparr>,
                 \<lparr>municipio = ''11001'', extra = [(''indice'', JNum 30)]\<rparr>,
                 \<lparr>municipio = ''11007'', extra = [(''indice'', JNum 20)]\<rparr>]\<rparr>"

definition defaultJoinOptions :: JoinOptions where
  "defaultJoinOptions = \<lparr>geoCodeField = None, dataCodeField = None, dataSourceName = None\<rparr>"

definition defaultChoroplethOptions :: ChoroplethOptions where
  "defaultChoroplethOptions = \<lparr>method_o = None, noDataColor = None, missingDataValue = None\<rparr>"

text \<open>The five colours of the risk index, from low to high.\<close>

definition riskColors :: "string list" where
  "riskColors = [''#99ccff'', ''#3399ff'', ''#0066cc'', ''#004d99'', ''#003366'']"

text \<open>An enhanced feature with the given code and the given value of \<open>indice\<close>.\<close>

definition featureWithValue :: "string \<Rightarrow> real \<Rightarrow> EnhancedProperties Feature" where
  "featureWithValue code v =
     \<lparr>geometry = Some squareGeometry,
      properties =
        \<lparr>original = \<lparr>state_code = Some 11, mun_code = None, mun_name = None,
                      cvegeo = Some code, nombre = None, other = []\<rparr>,
         cvegeo_e = JStr code,
         nombre_e = ''Unknown'',
         data = Some \<lparr>municipio = code, extra = [(''indice'', JNum v)]\<rparr>,
         hasData = True,
         dataSource = ''Unknown''\<rparr>\<rparr>"

definition collectionOf :: "EnhancedProperties Feature list \<Rightarrow> EnhancedMunicipalitiesGeoJSON" where
  "collectionOf fs =
     \<lparr>enhancedFeatures = fs,
      metadata_e = \<lparr>totalFeatures = length fs,
                    featuresWithData = length (filter (\<lambda>f. hasData (properties f)) fs),
                    dataAlignment = Num 1, missingDataCodes = [],
                    dataSource_m = ''Unknown'', joinedAt = ''2024-01-01T00:00:00.000Z''\<rparr>\<rparr>"

text \<open>A sequence of operations performed after a snapshot was taken.\<close>

definition laterOperations :: "Operation list" where
  "laterOperations =
     [Subscribe 1, HideAllLayers, SetLayerData 1700000000 ''homicidios'' True (Some 46),
      GetStatistics, ShowOnlyLayer ''homicidios'', SetLayerVisibility ''rezago_social'' True,
      GetVisibleLayers, Reset]"
section \<open>Properties of the code mapping\<close>

lemma find_unique:
  "distinct (map f xs) \<Longrightarrow> v \<in> set xs \<Longrightarrow> find (\<lambda>i. f i = f v) xs = Some v"
  by (induction xs) (auto simp: image_iff)

lemma municipalities_keys: "map fst GUANAJUATO_MUNICIPALITIES = [1..46]"
  by (simp add: GUANAJUATO_MUNICIPALITIES_def upto_rec1)

lemma municipalities_dataCodes_distinct:
  "distinct (map dataCode (map snd GUANAJUATO_MUNICIPALITIES))"
  by (simp add: GUANAJUATO_MUNICIPALITIES_def)

lemma municipalities_geoJsonCode:
  "list_all (\<lambda>(k, m). geoJsonCode m = k) GUANAJUATO_MUNICIPALITIES"
  by (simp add: GUANAJUATO_MUNICIPALITIES_def)

lemma municipalities_lookup:
  assumes "c \<in> {1..46}"
  obtains m where "map_of GUANAJUATO_MUNICIPALITIES c = Some m" "geoJsonCode m = c"
    "m \<in> set (map snd GUANAJUATO_MUNICIPALITIES)"
proof -
  from assms have "c \<in> set (map fst GUANAJUATO_MUNICIPALITIES)"
    by (simp add: municipalities_keys)
  then obtain m where look: "map_of GUANAJUATO_MUNICIPALITIES c = Some m"
    by (metis map_of_eq_None_iff not_Some_eq set_map)
  then have mem: "(c, m) \<in> set GUANAJUATO_MUNICIPALITIES"
    by (rule map_of_SomeD)
  with municipalities_geoJsonCode have "geoJsonCode m = c"
    by (auto simp: list_all_iff)
  moreover from mem have "m \<in> set (map snd GUANAJUATO_MUNICIPALITIES)"
    by force
  ultimately show thesis using look that by blast
qed

text \<open>
  Claim C9. For every compact code \<open>c\<close> from 1 to 46, the data code of \<open>c\<close> exists, it
  maps back to a compact code, and that compact code maps to the same data code again:
  \<open>dataCodeOf(compactCodeOf(dataCodeOf(c))) = dataCodeOf(c)\<close>, none of the three lookups
  being a miss.
\<close>

theorem crosswalk_roundtrip:
  "c \<in> {1..46} \<Longrightarrow>
     \<exists>d g. geoCodeToDataCode c = Some d \<and> dataCodeToGeoCode d = Some g \<and>
           geoCodeToDataCode g = Some d"
proof -
  assume "c \<in> {1..46}"
  then obtain m where look: "map_of GUANAJUATO_MUNICIPALITIES c = Some m"
    and g: "geoJsonCode m = c" and mem: "m \<in> set (map snd GUANAJUATO_MUNICIPALITIES)"
    by (rule municipalities_lookup)
  have "find (\<lambda>i. dataCode i = dataCode m) (map snd GUANAJUATO_MUNICIPALITIES) = Some m"
    using municipalities_dataCodes_distinct mem by (rule find_unique)
  then have "dataCodeToGeoCode (dataCode m) = Some c"
    by (simp add: dataCodeToGeoCode_def g)
  moreover have "geoCodeToDataCode c = Some (dataCode m)"
    by (simp add: geoCodeToDataCode_def look)
  ultimately show ?thesis by simp
qed

theorem crosswalk_roundtrip_witness:
  "(7::int) \<in> {1..46} \<and>
     (\<exists>d g. geoCodeToDataCode 7 = Some d \<and> dataCodeToGeoCode d = Some g \<and>
            geoCodeToDataCode g = Some d)"
  using crosswalk_roundtrip [of 7] by simp

section \<open>Properties of the data lookup\<close>

lemma map_of_mapSet: "map_of (mapSet m k v) = (map_of m)(k \<mapsto> v)"
  by (induction m) (auto simp: fun_eq_iff)

lemma mapSet_foldl:
  "map_of (foldl (\<lambda>m x. mapSet m (key x) (val x)) m0 xs) c =
     (case filter (\<lambda>x. key x = c) xs of
        [] \<Rightarrow> map_of m0 c
      | x # xs' \<Rightarrow> Some (val (last (x # xs'))))"
proof (induction xs arbitrary: m0)
  case Nil
  show ?case by simp
next
  case (Cons x xs)
  show ?case
    by (simp add: Cons.IH map_of_mapSet split: list.splits)
qed

lemma mapSet_foldl_last:
  "map_of (foldl (\<lambda>m x. mapSet m (key x) (val x)) m0 xs) c =
     (if filter (\<lambda>x. key x = c) xs = [] then map_of m0 c
      else Some (val (last (filter (\<lambda>x. key x = c) xs))))"
  by (simp add: mapSet_foldl split: list.splits)

lemma lookup_foldl:
  "map_of (foldl (\<lambda>lookup r. mapSet lookup (key r) r) m rs) c =
     (case filter (\<lambda>r. key r = c) rs of [] \<Rightarrow> map_of m c | r # rs' \<Rightarrow> Some (last (r # rs')))"
  by (rule mapSet_foldl [where val = "\<lambda>r. r"])

text \<open>
  Claim C7. For every data file and every code, the lookup built by
  \<open>createMunicipalityLookup\<close> resolves the code to the last record of the file, in
  iteration order, that carries it (and to nothing when no record carries it): when two
  or more records share a code, the later one wins.
\<close>

theorem lookup_last_write_wins:
  "mapGet (createMunicipalityLookup dataFile) code =
     (case filter (\<lambda>r. municipio r = code) (records dataFile) of
        [] \<Rightarrow> None
      | r # rs \<Rightarrow> Some (last (r # rs)))"
  by (simp add: mapGet_def createMunicipalityLookup_def lookup_foldl split: list.splits)

text \<open>Scenario B: two records share the code 11007 and differ in their value.\<close>

theorem lookup_last_write_wins_witness:
  "mapGet (createMunicipalityLookup threeRecords) ''11007''
     = Some \<lparr>municipio = ''11007'', extra = [(''indice'', JNum 20)]\<rparr>"
  using lookup_last_write_wins [of threeRecords "''11007''"]
  by (simp add: threeRecords_def)

section \<open>Properties of the join\<close>

text \<open>
  Claim C3. For every geometry collection with a feature list and every data file, the
  join returns a collection whose feature list has exactly the length of the input
  feature list, whatever the number of matching records; \<open>totalFeatures\<close> reports the
  same number.
\<close>

theorem join_preserves_feature_count:
  "features geoJson = Some fs \<Longrightarrow>
     \<exists>e. joinDataWithGeometries now geoJson dataFile options = Inr e \<and>
         length (enhancedFeatures e) = length fs \<and>
         totalFeatures (metadata_e e) = length fs"
  by (simp add: joinDataWithGeometries_def Let_def)

theorem join_preserves_feature_count_witness:
  "\<exists>fs e. features twoFeatures = Some fs \<and> length fs = 2 \<and>
      joinDataWithGeometries ''2024-01-01'' twoFeatures threeRecords defaultJoinOptions = Inr e \<and>
      length (enhancedFeatures e) = 2 \<and> totalFeatures (metadata_e e) = 2"
proof -
  obtain fs where h: "features twoFeatures = Some fs" and l: "length fs = 2"
    by (simp add: twoFeatures_def)
  from join_preserves_feature_count [OF h, of "''2024-01-01''" threeRecords defaultJoinOptions]
  show ?thesis using h l by auto
qed

section \<open>Properties of the validator\<close>

lemma missingMunicipality_step:
  "\<exists>ws. missingMunicipality foundCodes foundNames is0 m = is0 @ ws \<and>
        (\<forall>w \<in> set ws. severity w = Warning)"
  by (simp add: missingMunicipality_def)

lemma missingMunicipality_appends:
  "\<exists>ws. foldl (missingMunicipality foundCodes foundNames) is0 tbl = is0 @ ws \<and>
        (\<forall>w \<in> set ws. severity w = Warning)"
proof (induction tbl arbitrary: is0)
  case Nil
  show ?case by simp
next
  case (Cons m tbl)
  obtain ws1 where s1: "missingMunicipality foundCodes foundNames is0 m = is0 @ ws1"
    and w1: "\<forall>w \<in> set ws1. severity w = Warning"
    using missingMunicipality_step by blast
  obtain ws2 where s2: "foldl (missingMunicipality foundCodes foundNames) (is0 @ ws1) tbl
      = (is0 @ ws1) @ ws2" and w2: "\<forall>w \<in> set ws2. severity w = Warning"
    using Cons.IH by blast
  have "foldl (missingMunicipality foundCodes foundNames) is0 (m # tbl) = is0 @ (ws1 @ ws2)"
    by (simp add: s1 s2)
  moreover have "\<forall>w \<in> set (ws1 @ ws2). severity w = Warning"
    using w1 w2 by auto
  ultimately show ?case by blast
qed

lemma leon_by_code:
  "mapGet inegiByCode ''11020''
     = Some \<lparr>clave = ''11020'', nombre_i = ''Le'' @ [CHR 0xF3] @ ''n'', nombreCompleto = None\<rparr>"
proof -
  have "filter (\<lambda>m. clave m = ''11020'') INEGI_GUANAJUATO_MUNICIPALITIES
      = [\<lparr>clave = ''11020'', nombre_i = ''Le'' @ [CHR 0xF3] @ ''n'', nombreCompleto = None\<rparr>]"
    by (simp add: INEGI_GUANAJUATO_MUNICIPALITIES_def)
  then show ?thesis
    by (simp only: mapGet_def inegiByCode_def lookup_foldl) simp
qed

lemma toLowerCase_length: "length (toLowerCase s) = length s"
  by (simp add: toLowerCase_def)

lemma names_of_length_4:
  "list_all (\<lambda>m. length (nombre_i m) = 4 \<longrightarrow> nombre_i m = ''Le'' @ [CHR 0xF3] @ ''n'')
     INEGI_GUANAJUATO_MUNICIPALITIES"
  by (simp add: INEGI_GUANAJUATO_MUNICIPALITIES_def)

lemma leon_lower: "toLowerCase ''Leon'' = ''leon'' \<and> toLowerCase (''Le'' @ [CHR 0xF3] @ ''n'') \<noteq> ''leon''"
  by (simp add: toLowerCase_def lowerChar_def capitalLetters_def smallLetters_def)

lemma leon_by_name: "mapGet inegiByName ''leon'' = None"
proof -
  have "toLowerCase (nombre_i m) \<noteq> ''leon''" if "m \<in> set INEGI_GUANAJUATO_MUNICIPALITIES" for m
  proof (cases "length (nombre_i m) = 4")
    case True
    with that names_of_length_4 have "nombre_i m = ''Le'' @ [CHR 0xF3] @ ''n''"
      by (auto simp: list_all_iff)
    then show ?thesis using leon_lower by simp
  next
    case False
    then have "length (toLowerCase (nombre_i m)) \<noteq> length ''leon''"
      by (simp add: toLowerCase_length)
    then show ?thesis by metis
  qed
  then have "filter (\<lambda>m. toLowerCase (nombre_i m) = ''leon'') INEGI_GUANAJUATO_MUNICIPALITIES = []"
    by (simp add: filter_empty_conv)
  then show ?thesis
    by (simp add: mapGet_def inegiByName_def lookup_foldl)
qed

lemma code_of_20: "padStart (toStringInt 20) 3 CHR ''0'' = ''020''"
  by (simp add: toStringInt_def padStart_def digitChar_def)

lemma scenarioD_feature:
  "\<exists>w. validateFeature ([], [], [])
       (0, \<lparr>geometry = Some squareGeometry,
            properties = \<lparr>state_code = Some 11, mun_code = Some 20, mun_name = Some ''Leon'',
                          cvegeo = None, nombre = None, other = []\<rparr>\<rparr>)
     = ([w], [''11020''], [''leon'']) \<and> issueType w = wrong_name \<and> severity w = Warning
       \<and> municipality w = Some ''Leon''"
  by (simp add: validateFeature_def Let_def code_of_20 leon_by_code leon_by_name leon_lower
        catalogIssue_def squareGeometry_def setAdd_def)


lemma scenarioD_issues:
  "\<exists>w ws. issues (validateGeoJSONIntegrity scenarioD) = w # ws \<and>
      issueType w = wrong_name \<and> severity w = Warning \<and> municipality w = Some ''Leon'' \<and>
      (\<forall>i \<in> set ws. severity i = Warning)"
proof -
  obtain w where f: "validateFeature ([], [], [])
       (0, \<lparr>geometry = Some squareGeometry,
            properties = \<lparr>state_code = Some 11, mun_code = Some 20, mun_name = Some ''Leon'',
                          cvegeo = None, nombre = None, other = []\<rparr>\<rparr>)
     = ([w], [''11020''], [''leon''])"
    and w: "issueType w = wrong_name" "severity w = Warning" "municipality w = Some ''Leon''"
    using scenarioD_feature by blast
  obtain ws where m: "foldl (missingMunicipality [''11020''] [''leon'']) [w]
        INEGI_GUANAJUATO_MUNICIPALITIES = [w] @ ws" and ws: "\<forall>i \<in> set ws. severity i = Warning"
    using missingMunicipality_appends by blast
  have "issues (validateGeoJSONIntegrity scenarioD) = w # ws"
    by (simp add: validateGeoJSONIntegrity_def scenarioD_def Let_def f m)
  with w ws show ?thesis by blast
qed

text \<open>
  Claim C8. For every geometry collection, the report of \<open>validateGeoJSONIntegrity\<close>
  has \<open>isValid\<close> true if and only if no issue of the report has severity error; issues
  of severity warning, such as the name mismatch of Scenario D, never make it false.
\<close>

theorem validity_iff_no_errors:
  "isValid (validateGeoJSONIntegrity geoJsonData) \<longleftrightarrow>
     (\<forall>i \<in> set (issues (validateGeoJSONIntegrity geoJsonData)). severity i \<noteq> Error)"
  by (auto simp: validateGeoJSONIntegrity_def Let_def countSeverity_def filter_empty_conv
           split: option.splits prod.splits)

text \<open>
  Scenario D: the feature named \<open>Leon\<close> with the code of the catalogue entry 11020 yields a name-mismatch
  warning and a valid report.
\<close>

theorem validity_iff_no_errors_witness:
  "isValid (validateGeoJSONIntegrity scenarioD) \<and>
     (\<exists>i \<in> set (issues (validateGeoJSONIntegrity scenarioD)).
         issueType i = wrong_name \<and> severity i = Warning \<and> municipality i = Some ''Leon'')"
proof -
  obtain w ws where i: "issues (validateGeoJSONIntegrity scenarioD) = w # ws"
    and w: "issueType w = wrong_name" "severity w = Warning" "municipality w = Some ''Leon''"
    and ws: "\<forall>i \<in> set ws. severity i = Warning"
    using scenarioD_issues by blast
  have "\<forall>i \<in> set (issues (validateGeoJSONIntegrity scenarioD)). severity i \<noteq> Error"
    using i w ws by auto
  then have "isValid (validateGeoJSONIntegrity scenarioD)"
    using validity_iff_no_errors [of scenarioD] by simp
  moreover have "w \<in> set (issues (validateGeoJSONIntegrity scenarioD))"
    using i by simp
  ultimately show ?thesis using w by blast
qed

section \<open>Properties of the classification\<close>

lemma scenarioC_breaks:
  "computeBreaks quintiles [10, 20, 30, 40, 50] 5
     = [Num 10, Num 20, Num 30, Num 40, Num 50, Num 50]"
  by (simp add: computeBreaks_def Let_def elemAt_def jsor_def)

text \<open>
  Claim C1, as amended. For the quintile method on the values 10, 20, 30, 40, 50 the
  quintile size is 1, so the breaks are the values at the indices 0, 1, 2, 3, 4, 4, that
  is 10, 20, 30, 40, 50, 50; the scan from the highest break downwards finds 25 >= 20
  at index 1, so the value 25 receives the second of five colours.
\<close>

theorem scenarioC_breaks_and_color:
  "computeBreaks quintiles [10, 20, 30, 40, 50] 5
     = [Num 10, Num 20, Num 30, Num 40, Num 50, Num 50] \<and>
   colorForValue 25 (computeBreaks quintiles [10, 20, 30, 40, 50] 5) [c1, c2, c3, c4, c5]
     (length (computeBreaks quintiles [10, 20, 30, 40, 50] 5)) = Some c2"
  by (simp add: scenarioC_breaks colorAt_def)

theorem scenarioC_breaks_and_color_witness:
  "colorForValue 25 (computeBreaks quintiles [10, 20, 30, 40, 50] 5) riskColors
     (length (computeBreaks quintiles [10, 20, 30, 40, 50] 5)) = Some ''#3399ff''"
  using scenarioC_breaks_and_color
    [of "''#99ccff''" "''#3399ff''" "''#0066cc''" "''#004d99''" "''#003366''"]
  unfolding riskColors_def by blast

text \<open>
  The breaks are not 10, 10, 20, 30, 40, 50, and the value 25 does not receive the third
  colour.
\<close>

theorem scenarioC_counterexample:
  "computeBreaks quintiles [10, 20, 30, 40, 50] 5
     \<noteq> [Num 10, Num 10, Num 20, Num 30, Num 40, Num 50] \<and>
   colorForValue 25 (computeBreaks quintiles [10, 20, 30, 40, 50] 5) riskColors
     (length (computeBreaks quintiles [10, 20, 30, 40, 50] 5)) \<noteq> Some (riskColors ! 2)"
  by (simp add: scenarioC_breaks colorAt_def riskColors_def)

text \<open>
  Claim C2. The breaks are meant to be non-decreasing, and the code sorts the values and
  reads them at ascending indices; but \<open>values[k] || values[0]\<close> replaces a value that
  is zero by the smallest value. On the values -5, -3, 0, 1, 2 the third break is -5,
  below the second break -3.
\<close>

theorem quintile_breaks_with_zero:
  "computeBreaks quintiles [-5, -3, 0, 1, 2] k
     = [Num (-5), Num (-3), Num (-5), Num 1, Num 2, Num 2] \<and>
   \<not> nonDecreasing (computeBreaks quintiles [-5, -3, 0, 1, 2] k)"
  by (simp add: computeBreaks_def Let_def elemAt_def jsor_def jsle_def)


text \<open>Where the breaks are non-decreasing.\<close>

lemma nonDecreasing_iff:
  "nonDecreasing bs \<longleftrightarrow> (\<forall>i. Suc i < length bs \<longrightarrow> jsle (bs ! i) (bs ! Suc i))"
proof (induction bs rule: nonDecreasing.induct)
  case (1 a b bs)
  show ?case
  proof
    assume l: "nonDecreasing (a # b # bs)"
    show "\<forall>i. Suc i < length (a # b # bs) \<longrightarrow> jsle ((a # b # bs) ! i) ((a # b # bs) ! Suc i)"
    proof (intro allI impI)
      fix i assume "Suc i < length (a # b # bs)"
      then show "jsle ((a # b # bs) ! i) ((a # b # bs) ! Suc i)"
        using l "1.IH" by (cases i) auto
    qed
  next
    assume r: "\<forall>i. Suc i < length (a # b # bs) \<longrightarrow> jsle ((a # b # bs) ! i) ((a # b # bs) ! Suc i)"
    then have "jsle a b" by fastforce
    moreover have "\<forall>i. Suc i < length (b # bs) \<longrightarrow> jsle ((b # bs) ! i) ((b # bs) ! Suc i)"
    proof (intro allI impI)
      fix i assume "Suc i < length (b # bs)"
      then have "Suc (Suc i) < length (a # b # bs)" by simp
      with r have "jsle ((a # b # bs) ! Suc i) ((a # b # bs) ! Suc (Suc i))" by blast
      then show "jsle ((b # bs) ! i) ((b # bs) ! Suc i)" by simp
    qed
    ultimately show "nonDecreasing (a # b # bs)" using "1.IH" by simp
  qed
qed simp_all

lemma fold_min_max: "fold min xs (x::real) \<le> fold max xs x"
proof -
  have "fold min xs x \<le> x \<and> x \<le> fold max xs x"
  proof (induction xs arbitrary: x)
    case Nil
    show ?case by simp
  next
    case (Cons y ys)
    have "fold min ys (min y x) \<le> min y x" "max y x \<le> fold max ys (max y x)"
      using Cons.IH by blast+
    then show ?case by auto
  qed
  then show ?thesis by simp
qed

text \<open>
  Equal-interval breaks are non-decreasing for every non-empty list of values, in exact
  arithmetic: the rounding of the additions and multiplications is not part of the model.
\<close>

lemma equal_interval_nonDecreasing:
  assumes "vals \<noteq> []" "m \<noteq> quintiles"
  shows "nonDecreasing (computeBreaks m vals k)"
proof -
  obtain x xs where v: "vals = x # xs" using assms(1) by (cases vals) auto
  define lo where "lo = fold min xs x"
  define hi where "hi = fold max xs x"
  have le: "lo \<le> hi" unfolding lo_def hi_def by (rule fold_min_max)
  show ?thesis
  proof (cases "k \<le> 1")
    case True
    then have "length (computeBreaks m vals k) \<le> 1"
      using assms(2) by (simp add: computeBreaks_def Let_def)
    then show ?thesis by (simp add: nonDecreasing_iff)
  next
    case False
    then have k: "real_of_int (int k - 1) > 0" by simp
    define iv where "iv = (hi - lo) / real_of_int (int k - 1)"
    have iv: "0 \<le> iv" unfolding iv_def using le k by simp
    have b: "computeBreaks m vals k = map (\<lambda>i. Num (lo + iv * real i)) [0..<k]"
      using assms(2) k
      by (simp add: computeBreaks_def Let_def v lo_def hi_def iv_def jssub_def)
    show ?thesis
      unfolding nonDecreasing_iff b
    proof (intro allI impI)
      fix i assume "Suc i < length (map (\<lambda>i. Num (lo + iv * real i)) [0..<k])"
      then have "Suc i < k" by simp
      moreover have "iv * real i \<le> iv * real (Suc i)"
        using iv by (intro mult_left_mono) simp_all
      ultimately show "jsle (map (\<lambda>i. Num (lo + iv * real i)) [0..<k] ! i)
             (map (\<lambda>i. Num (lo + iv * real i)) [0..<k] ! Suc i)"
        by (simp add: jsle_def del: of_nat_Suc)
    qed
  qed
qed

text \<open>
  Quintile breaks are non-decreasing when the fallback \<open>|| values[0]\<close> never replaces a
  value by a smaller one: when no value is zero, or no value is negative.
\<close>

lemma quintile_nonDecreasing:
  assumes "vals \<noteq> []" and z: "0 \<in> set vals \<Longrightarrow> \<forall>u \<in> set vals. 0 \<le> u"
  shows "nonDecreasing (computeBreaks quintiles vals k)"
proof -
  define s where "s = sort vals"
  define q where "q = int (length s) div 5"
  have n: "0 < length s" using assms(1) by (simp add: s_def)
  have sorted: "sorted s" by (simp add: s_def)
  have q0: "0 \<le> q" and q4: "q * 4 \<le> int (length s) - 1"
    using n unfolding q_def by linarith+
  have at: "elemAt s i = Num (s ! nat i)" if "0 \<le> i" "i < int (length s)" for i
    using that by (simp add: elemAt_def)
  have mono: "s ! nat i \<le> s ! nat j" if "0 \<le> i" "i \<le> j" "j < int (length s)" for i j
    using that sorted by (intro sorted_nth_mono) auto
  have fallback: "jsor (elemAt s i) (elemAt s 0) = Num (s ! nat i)"
    if i: "0 \<le> i" "i < int (length s)" for i
  proof (cases "s ! nat i = 0")
    case False
    then show ?thesis using i by (simp add: jsor_def at)
  next
    case True
    have "s ! nat i \<in> set s" using i by (intro nth_mem) auto
    then have "0 \<in> set vals" using True by (simp add: s_def)
    then have "\<forall>u \<in> set vals. 0 \<le> u" by (rule z)
    moreover have "s ! nat 0 \<in> set s" using n by (intro nth_mem) simp
    then have "s ! nat 0 \<in> set vals" by (simp add: s_def)
    ultimately have "0 \<le> s ! nat 0" by blast
    moreover have "s ! nat 0 \<le> s ! nat i" using i by (intro mono) auto
    ultimately have "s ! nat 0 = 0" using True by simp
    then show ?thesis using i n True by (simp add: jsor_def at elemAt_def)
  qed
  have e0: "elemAt s 0 = Num (s ! nat 0)"
    using n by (intro at) simp_all
  have e5: "elemAt s (int (length s) - 1) = Num (s ! nat (int (length s) - 1))"
    using n by (intro at) simp_all
  have f1: "jsor (elemAt s q) (elemAt s 0) = Num (s ! nat q)"
    using q0 q4 by (intro fallback) simp_all
  have f2: "jsor (elemAt s (q * 2)) (elemAt s 0) = Num (s ! nat (q * 2))"
    using q0 q4 by (intro fallback) simp_all
  have f3: "jsor (elemAt s (q * 3)) (elemAt s 0) = Num (s ! nat (q * 3))"
    using q0 q4 by (intro fallback) simp_all
  have f4: "jsor (elemAt s (q * 4)) (elemAt s 0) = Num (s ! nat (q * 4))"
    using q0 q4 by (intro fallback) simp_all
  have b: "computeBreaks quintiles vals k =
      [Num (s ! nat 0), Num (s ! nat q), Num (s ! nat (q * 2)), Num (s ! nat (q * 3)),
       Num (s ! nat (q * 4)), Num (s ! nat (int (length s) - 1))]"
    unfolding computeBreaks_def Let_def s_def[symmetric] q_def[symmetric]
    by (simp only: f1 f2 f3 f4 if_True simp_thms, simp only: e0 e5)
  have m1: "s ! nat 0 \<le> s ! nat q"
    using q0 q4 by (intro mono) simp_all
  have m2: "s ! nat q \<le> s ! nat (q * 2)"
    using q0 q4 by (intro mono) simp_all
  have m3: "s ! nat (q * 2) \<le> s ! nat (q * 3)"
    using q0 q4 by (intro mono) simp_all
  have m4: "s ! nat (q * 3) \<le> s ! nat (q * 4)"
    using q0 q4 by (intro mono) simp_all
  have m5: "s ! nat (q * 4) \<le> s ! nat (int (length s) - 1)"
    using q0 q4 by (intro mono) simp_all
  show ?thesis
    unfolding b
    by (simp only: nonDecreasing.simps jsle_def jsge.simps m1 m2 m3 m4 m5 simp_thms)
qed


lemma extractValue_snd:
  "snd (extractValue valueExtractor missing acc f) =
     mapSet (snd acc) (cvegeo_e (properties f))
       (case data (properties f) of
          Some d \<Rightarrow> if hasData (properties f) then valueExtractor d else missing
        | None \<Rightarrow> missing)"
  by (simp add: extractValue_def Let_def split: option.splits)

lemma valueMap_foldl:
  "snd (foldl (extractValue valueExtractor missing) acc fs) =
     foldl (\<lambda>m f. mapSet m (cvegeo_e (properties f))
              (case data (properties f) of
                 Some d \<Rightarrow> if hasData (properties f) then valueExtractor d else missing
               | None \<Rightarrow> missing)) (snd acc) fs"
  by (induction fs arbitrary: acc) (simp_all add: extractValue_snd)

text \<open>
  Claim C10, as amended. A feature with \<open>hasData\<close> true whose extracted value equals the
  missing-data value, and whose code no later feature of the collection carries, is
  mapped to the no-data colour by the lookup that \<open>createChoroplethMapping\<close> returns.
\<close>

theorem sentinel_value_maps_to_noDataColor:
  assumes "enhancedFeatures g = before @ f # after"
    and "hasData (properties f)"
    and "data (properties f) = Some d"
    and "valueExtractor d = (case missingDataValue options of None \<Rightarrow> 0 | Some x \<Rightarrow> x)"
    and "cvegeo_e (properties f) = JStr code"
    and "\<forall>f' \<in> set after. cvegeo_e (properties f') \<noteq> JStr code"
  shows "createChoroplethMapping g valueExtractor colorScale options code
           = Some (case noDataColor options of None \<Rightarrow> ''#cccccc'' | Some c \<Rightarrow> c)"
proof -
  define missing where "missing = (case missingDataValue options of None \<Rightarrow> 0 | Some x \<Rightarrow> x)"
  define acc where "acc = extractValues valueExtractor missing (enhancedFeatures g)"
  define val where "val = (\<lambda>f' :: EnhancedProperties Feature. case data (properties f') of
       Some d \<Rightarrow> if hasData (properties f') then valueExtractor d else missing
     | None \<Rightarrow> missing)"
  have v: "val f = missing"
    using assms(2,3,4) by (simp add: val_def missing_def)
  have "filter (\<lambda>f'. cvegeo_e (properties f') = JStr code) after = []"
    using assms(6) by (simp add: filter_empty_conv)
  then have flt: "filter (\<lambda>f'. cvegeo_e (properties f') = JStr code) (enhancedFeatures g)
      = filter (\<lambda>f'. cvegeo_e (properties f') = JStr code) before @ [f]"
    using assms(1,5) by simp
  have "snd acc = foldl (\<lambda>m f'. mapSet m (cvegeo_e (properties f')) (val f')) []
                    (enhancedFeatures g)"
    unfolding acc_def extractValues_def valueMap_foldl val_def by simp
  then have "map_of (snd acc) (JStr code) = Some missing"
    by (simp add: mapSet_foldl_last flt v)
  then have look: "lookupColor (snd acc) breaks colorScale noData missing code = Some noData"
    for breaks noData
    by (simp add: lookupColor_def mapGet_def)
  obtain vals valueMap where acc: "acc = (vals, valueMap)"
    by (cases acc)
  show ?thesis
    using look
    by (simp add: createChoroplethMapping_def Let_def missing_def[symmetric] acc_def[symmetric]
          acc)
qed

theorem sentinel_value_maps_to_noDataColor_witness:
  "createChoroplethMapping
     (collectionOf [featureWithValue ''11001'' 40, featureWithValue ''11007'' 0])
     indice riskColors defaultChoroplethOptions ''11007'' = Some ''#cccccc''"
  using sentinel_value_maps_to_noDataColor
    [of "collectionOf [featureWithValue ''11001'' 40, featureWithValue ''11007'' 0]"
        "[featureWithValue ''11001'' 40]" "featureWithValue ''11007'' 0" "[]"
        "\<lparr>municipio = ''11007'', extra = [(''indice'', JNum 0)]\<rparr>" indice
        defaultChoroplethOptions "''11007''" riskColors]
  by (simp add: collectionOf_def featureWithValue_def indice_def defaultChoroplethOptions_def)

text \<open>
  Without the condition on later features the claim fails: the value map is keyed by
  the code, and a later feature with the same code overwrites the stored value. Here the
  first feature has data, the extracted value 0 and the code 11007; the lookup of 11007
  returns the colour of the highest bin.
\<close>

theorem sentinel_value_counterexample:
  "hasData (properties (featureWithValue ''11007'' 0)) \<and>
   map_option indice (data (properties (featureWithValue ''11007'' 0))) = Some 0 \<and>
   cvegeo_e (properties (featureWithValue ''11007'' 0)) = JStr ''11007'' \<and>
   createChoroplethMapping
     (collectionOf [featureWithValue ''11007'' 0, featureWithValue ''11007'' 5])
     indice riskColors defaultChoroplethOptions ''11007'' = Some ''#003366''"
  by (simp add: collectionOf_def featureWithValue_def indice_def defaultChoroplethOptions_def
        createChoroplethMapping_def extractValues_def extractValue_def Let_def
        lookupColor_def mapGet_def computeBreaks_def elemAt_def jsor_def colorAt_def
        riskColors_def)


section \<open>Properties of the alignment validators\<close>

text \<open>
  Claim C4. The ratio is documented as a ratio between 0 and 1, but both validators
  divide by the larger of the two sizes without a guard: for two empty sets of codes the
  division is 0 / 0 and the ratio is \<open>NaN\<close>, which is neither at least 0 nor at most 1.
  The join passes the ratio on as \<open>dataAlignment\<close>.
\<close>

theorem alignment_ratio_of_empty_sets:
  "alignmentRatio (validateMunicipalityAlignment ([] :: jsval option list) []) = NaN \<and>
   alignmentRatio (validateCodeAlignment [] []) = NaN \<and>
   (\<exists>e. joinDataWithGeometries now \<lparr>features = Some []\<rparr>
          \<lparr>version = v, source = None, updated = None, metadata = None, records = []\<rparr>
          defaultJoinOptions = Inr e \<and> dataAlignment (metadata_e e) = NaN) \<and>
   \<not> jsge NaN (Num 0) \<and> \<not> jsle NaN (Num 1)"
  by (simp add: validateMunicipalityAlignment_def validateCodeAlignment_def
        joinDataWithGeometries_def newSet_def Let_def jsle_def defaultJoinOptions_def)

lemma setAdd_new: "x \<notin> set s \<Longrightarrow> setAdd s x = s @ [x]"
  by (simp add: setAdd_def)

lemma checkDataMunicipality_in:
  "c \<in> set geo \<Longrightarrow> c \<notin> set m \<Longrightarrow> checkDataMunicipality geo (m, g) c = (m @ [c], g)"
  by (simp add: checkDataMunicipality_def setAdd_def)

lemma checkDataMunicipality_out:
  "c \<notin> set geo \<Longrightarrow> c \<notin> set g \<Longrightarrow> checkDataMunicipality geo (m, g) c = (m, g @ [c])"
  by (simp add: checkDataMunicipality_def setAdd_def)

lemma setAdd_fold_distinct:
  "distinct xs \<Longrightarrow> set xs \<inter> set acc = {} \<Longrightarrow> foldl setAdd acc xs = acc @ xs"
proof (induction xs arbitrary: acc)
  case Nil
  show ?case by simp
next
  case (Cons x xs)
  then have "foldl setAdd (acc @ [x]) xs = (acc @ [x]) @ xs"
    by (intro Cons.IH) auto
  with Cons.prems show ?case by (simp add: setAdd_new)
qed

lemma distinct_newSet: "distinct (newSet xs)"
proof -
  have "distinct acc \<Longrightarrow> distinct (foldl setAdd acc xs)" for acc
  proof (induction xs arbitrary: acc)
    case Nil
    then show ?case by simp
  next
    case (Cons x xs)
    have "distinct (setAdd acc x)" using Cons.prems by (simp add: setAdd_def)
    then show ?case using Cons.IH by simp
  qed
  then show ?thesis by (simp add: newSet_def)
qed

lemma checkDataMunicipality_fold:
  "distinct dat \<Longrightarrow> set dat \<inter> set m = {} \<Longrightarrow> set dat \<inter> set g = {} \<Longrightarrow>
     foldl (checkDataMunicipality geo) (m, g) dat
       = (m @ filter (\<lambda>c. c \<in> set geo) dat, g @ filter (\<lambda>c. c \<notin> set geo) dat)"
proof (induction dat arbitrary: m g)
  case Nil
  show ?case by simp
next
  case (Cons c dat)
  show ?case
  proof (cases "c \<in> set geo")
    case True
    have "foldl (checkDataMunicipality geo) (m @ [c], g) dat
        = ((m @ [c]) @ filter (\<lambda>c. c \<in> set geo) dat, g @ filter (\<lambda>c. c \<notin> set geo) dat)"
      using Cons.prems by (intro Cons.IH) auto
    then show ?thesis using True Cons.prems
      by (simp add: checkDataMunicipality_in)
  next
    case False
    have "foldl (checkDataMunicipality geo) (m, g @ [c]) dat
        = (m @ filter (\<lambda>c. c \<in> set geo) dat, (g @ [c]) @ filter (\<lambda>c. c \<notin> set geo) dat)"
      using Cons.prems by (intro Cons.IH) auto
    then show ?thesis using False Cons.prems
      by (simp add: checkDataMunicipality_out)
  qed
qed

lemma matching_length:
  assumes "distinct dat"
  shows "length (matching (validateMunicipalityAlignment geo dat)) = card (set dat \<inter> set geo)"
proof -
  have "matching (validateMunicipalityAlignment geo dat) = filter (\<lambda>c. c \<in> set geo) dat"
    using assms by (simp add: validateMunicipalityAlignment_def checkDataMunicipality_fold)
  moreover have "distinct (filter (\<lambda>c. c \<in> set geo) dat)"
    using assms by simp
  moreover have "set (filter (\<lambda>c. c \<in> set geo) dat) = set dat \<inter> set geo"
    by auto
  ultimately show ?thesis
    by (metis distinct_card)
qed

text \<open>
  For two sets of codes that are not both empty, the ratio is a number between 0 and 1,
  and it is 1 exactly when the sets are equal.
\<close>

lemma alignment_ratio_range:
  assumes "distinct geo" "distinct dat" "geo \<noteq> [] \<or> dat \<noteq> []"
  shows "\<exists>r. alignmentRatio (validateMunicipalityAlignment geo dat) = Num r \<and>
             0 \<le> r \<and> r \<le> 1 \<and> (r = 1 \<longleftrightarrow> set geo = set dat)"
proof -
  define k where "k = card (set dat \<inter> set geo)"
  define n where "n = max (length geo) (length dat)"
  have "0 < length geo \<or> 0 < length dat" using assms(3) by simp
  then have n: "0 < n" unfolding n_def by linarith
  have lg: "length geo = card (set geo)" and ld: "length dat = card (set dat)"
    using assms(1,2) by (simp_all add: distinct_card)
  have kd: "k \<le> card (set dat)" and kg: "k \<le> card (set geo)"
    unfolding k_def by (simp_all add: card_mono)
  have kn: "k \<le> n" using kd by (simp add: n_def ld)
  have r: "alignmentRatio (validateMunicipalityAlignment geo dat) = Num (real k / real n)"
  proof -
    have "alignmentRatio (validateMunicipalityAlignment geo dat)
        = jsdiv (Num (real (length (matching (validateMunicipalityAlignment geo dat)))))
            (Num (real n))"
      by (simp add: validateMunicipalityAlignment_def n_def split: prod.splits)
    then show ?thesis using n by (simp add: matching_length assms(2) k_def)
  qed
  have eq: "k = n \<longleftrightarrow> set geo = set dat"
  proof
    assume "k = n"
    then have "card (set dat \<inter> set geo) = card (set dat)" "card (set dat \<inter> set geo) = card (set geo)"
      using kd kg by (simp_all add: k_def n_def lg ld)
    then have "set dat \<inter> set geo = set dat" "set dat \<inter> set geo = set geo"
      by (simp_all add: card_subset_eq)
    then show "set geo = set dat" by blast
  next
    assume "set geo = set dat"
    then show "k = n" by (simp add: k_def n_def lg ld)
  qed
  have "real k / real n = 1 \<longleftrightarrow> k = n" using n by auto
  moreover have "0 \<le> real k / real n" by simp
  moreover have "real k / real n \<le> 1" using kn n by simp
  ultimately show ?thesis using r eq by simp
qed

section \<open>Properties of the layer manager\<close>

lemma layer_ids:
  "map fst ATLAS_LAYERS = [''indice_riesgo'', ''desapariciones'', ''homicidios'',
     ''tomas_clandestinas'', ''rezago_social'', ''capacidad_instalada'']"
  by (simp add: ATLAS_LAYERS_def)

lemma mapSet_fresh: "k \<notin> fst ` set m \<Longrightarrow> mapSet m k v = m @ [(k, v)]"
  by (induction m) auto

lemma upt_shift: "[n..<n + Suc k] = n # [Suc n..<Suc n + k]"
proof -
  have "n < n + Suc k" by simp
  then have "[n..<n + Suc k] = n # [Suc n..<n + Suc k]"
    by (rule upt_conv_Cons)
  moreover have "n + Suc k = Suc n + k" by simp
  ultimately show ?thesis by (simp only:)
qed

lemma initializeLayer_fold:
  "distinct (map fst cfgs) \<Longrightarrow> fst ` set cfgs \<inter> fst ` set (layers s) = {} \<Longrightarrow>
     foldl initializeLayer s cfgs
       = s\<lparr>heap := heap s @ map (\<lambda>e. newLayerState (fst e) (snd e)) cfgs,
            layers := layers s @ zip (map fst cfgs) [length (heap s)..<length (heap s) + length cfgs]\<rparr>"
proof (induction cfgs arbitrary: s)
  case Nil
  show ?case by simp
next
  case (Cons e cfgs)
  have fresh: "fst e \<notin> fst ` set (layers s)"
    using Cons.prems(2) by auto
  define s' where "s' = initializeLayer s e"
  have s': "s' = s\<lparr>heap := heap s @ [newLayerState (fst e) (snd e)],
                     layers := layers s @ [(fst e, length (heap s))]\<rparr>"
    using fresh by (simp add: s'_def initializeLayer_def mapSet_fresh)
  have "distinct (map fst cfgs)" using Cons.prems(1) by simp
  moreover have "fst ` set cfgs \<inter> fst ` set (layers s') = {}"
    using Cons.prems by (auto simp: s')
  ultimately have "foldl initializeLayer s' cfgs
       = s'\<lparr>heap := heap s' @ map (\<lambda>e. newLayerState (fst e) (snd e)) cfgs,
            layers := layers s' @ zip (map fst cfgs) [length (heap s')..<length (heap s') + length cfgs]\<rparr>"
    by (rule Cons.IH)
  then have step: "foldl initializeLayer s (e # cfgs)
       = s'\<lparr>heap := heap s' @ map (\<lambda>e. newLayerState (fst e) (snd e)) cfgs,
            layers := layers s' @ zip (map fst cfgs) [length (heap s')..<length (heap s') + length cfgs]\<rparr>"
    by (simp add: s'_def)
  have "length (heap s') = Suc (length (heap s))" "length (e # cfgs) = Suc (length cfgs)"
    by (simp_all add: s')
  then have u: "[length (heap s)..<length (heap s) + length (e # cfgs)]
      = length (heap s) # [length (heap s')..<length (heap s') + length cfgs]"
    by (simp only: upt_shift)
  show ?case
    unfolding step u by (simp add: s')
qed

lemma layerManager_eq:
  "layerManager =
     \<lparr>heap = map (\<lambda>e. newLayerState (fst e) (snd e)) ATLAS_LAYERS,
      layers = zip (map fst ATLAS_LAYERS) [0..<length ATLAS_LAYERS],
      arrays = [], listeners = [], calls = []\<rparr>"
proof -
  have "distinct (map fst ATLAS_LAYERS)" by (simp add: layer_ids)
  then show ?thesis
    by (simp add: layerManager_def initializeLayers_def initializeLayer_fold)
qed


lemma callListener_fold:
  "foldl (callListener a) s ls = s\<lparr>calls := calls s @ map (\<lambda>l. (l, a, view s a)) ls\<rparr>"
proof (induction ls arbitrary: s)
  case Nil
  show ?case by simp
next
  case (Cons l ls)
  have "view (callListener a s l) a = view s a"
    by (simp add: callListener_def view_def)
  then show ?case
    by (simp add: Cons.IH) (simp add: callListener_def)
qed

lemma notifyListeners_eq:
  "notifyListeners s =
     s\<lparr>arrays := arrays s @ [map snd (layers s)],
       calls := calls s @ map (\<lambda>l. (l, length (arrays s), map (\<lambda>r. heap s ! r) (map snd (layers s))))
                             (listeners s)\<rparr>"
  by (simp add: notifyListeners_def getLayers_def callListener_fold view_def)

lemma toggleLayer_known:
  assumes "mapGet (layers s) ident = Some r"
  shows "snd (toggleLayer ident s) =
           notifyListeners (s\<lparr>heap := (heap s)[r := (heap s ! r)\<lparr>isVisible := \<not> isVisible (heap s ! r)\<rparr>]\<rparr>)"
  using assms by (simp add: toggleLayer_def Let_def)

text \<open>
  What a toggle does to a snapshot taken before it: the array keeps its cells, and the
  object of the toggled layer, which the array refers to, has its flag flipped.
\<close>

lemma toggle_after_snapshot:
  assumes "getLayers s = (a, s1)" and "mapGet (layers s) ident = Some r"
    and "r < length (heap s)" and "toggleLayer ident s1 = (b, s2)"
  shows "a = length (arrays s)" and "arrays s1 ! a = map snd (layers s)"
    and "arrays s2 ! a = arrays s1 ! a" and "r \<in> set (arrays s2 ! a)"
    and "heap s2 = (heap s1)[r := (heap s1 ! r)\<lparr>isVisible := \<not> isVisible (heap s1 ! r)\<rparr>]"
    and "heap s1 = heap s"
proof -
  have a: "a = length (arrays s)" and s1: "s1 = s\<lparr>arrays := arrays s @ [map snd (layers s)]\<rparr>"
    using assms(1) by (auto simp: getLayers_def)
  have "mapGet (layers s1) ident = Some r" using assms(2) by (simp add: s1)
  then have s2: "s2 = notifyListeners
      (s1\<lparr>heap := (heap s1)[r := (heap s1 ! r)\<lparr>isVisible := \<not> isVisible (heap s1 ! r)\<rparr>]\<rparr>)"
    using toggleLayer_known [of s1 ident r] assms(4) by simp
  have mem: "r \<in> set (map snd (layers s))"
    using assms(2) by (auto simp: mapGet_def dest!: map_of_SomeD intro: rev_image_eqI)
  show "a = length (arrays s)" by (rule a)
  show "arrays s1 ! a = map snd (layers s)" by (simp add: a s1)
  show "arrays s2 ! a = arrays s1 ! a"
    by (simp add: s2 notifyListeners_eq a s1 nth_append)
  show "r \<in> set (arrays s2 ! a)"
    using mem by (simp add: s2 notifyListeners_eq a s1 nth_append)
  show "heap s2 = (heap s1)[r := (heap s1 ! r)\<lparr>isVisible := \<not> isVisible (heap s1 ! r)\<rparr>]"
    by (simp add: s2 notifyListeners_eq)
  show "heap s1 = heap s" by (simp add: s1)
qed

lemma layer_count: "length ATLAS_LAYERS = 6"
proof -
  have "length (map fst ATLAS_LAYERS) = 6" by (simp only: layer_ids) simp
  then show ?thesis by simp
qed

lemma layerManager_layers:
  "layers layerManager = [(''indice_riesgo'', 0), (''desapariciones'', 1), (''homicidios'', 2),
     (''tomas_clandestinas'', 3), (''rezago_social'', 4), (''capacidad_instalada'', 5)]"
proof -
  have "[0..<6] = [0, 1, 2, 3, 4, 5::nat]" by (simp add: upt_rec)
  then show ?thesis by (simp add: layerManager_eq layer_ids layer_count)
qed

lemma layerManager_heap:
  "length (heap layerManager) = 6"
  "map id_l (heap layerManager) = map fst ATLAS_LAYERS"
  "map isVisible (heap layerManager) = [True, False, False, False, False, False]"
proof -
  show "length (heap layerManager) = 6" by (simp add: layerManager_eq layer_count)
  show "map id_l (heap layerManager) = map fst ATLAS_LAYERS"
    by (simp add: layerManager_eq newLayerState_def)
  have "map isVisible (heap layerManager)
      = map (\<lambda>i. i = ''indice_riesgo'') (map fst ATLAS_LAYERS)"
    by (simp add: layerManager_eq newLayerState_def)
  then show "map isVisible (heap layerManager) = [True, False, False, False, False, False]"
    by (simp add: layer_ids)
qed

lemma layerManager_rest:
  "arrays layerManager = []" "listeners layerManager = []" "calls layerManager = []"
  by (simp_all add: layerManager_eq)

lemma layerManager_refs: "map snd (layers layerManager) = [0..<length (heap layerManager)]"
  by (simp add: layerManager_eq)

lemma layerManager_lookup:
  assumes "r < length ATLAS_LAYERS"
  shows "mapGet (layers layerManager) (fst (ATLAS_LAYERS ! r)) = Some r"
proof -
  have "distinct (map fst ATLAS_LAYERS)" by (simp add: layer_ids)
  moreover have "r < length (map fst ATLAS_LAYERS)" using assms by simp
  ultimately have "map_of (zip (map fst ATLAS_LAYERS) [0..<length ATLAS_LAYERS])
        (map fst ATLAS_LAYERS ! r) = Some ([0..<length ATLAS_LAYERS] ! r)"
    by (intro map_of_zip_nth) simp_all
  then show ?thesis using assms by (simp add: mapGet_def layerManager_eq)
qed

text \<open>
  \<open>setLayerVisibility(id, true)\<close> in the initial state with one subscriber: for the layer
  that is visible already nothing happens; for any other configured layer the subscriber
  is called once, with all six layer states, the one of \<open>id\<close> now visible.
\<close>

lemma setLayerVisibility_initial:
  assumes "r < length ATLAS_LAYERS" and "ident = fst (ATLAS_LAYERS ! r)"
  shows "ident = ''indice_riesgo'' \<Longrightarrow>
           calls (snd (setLayerVisibility ident True (subscribe l layerManager))) = []"
    and "ident \<noteq> ''indice_riesgo'' \<Longrightarrow>
           \<exists>v. calls (snd (setLayerVisibility ident True (subscribe l layerManager))) = [(l, 0, v)]
               \<and> length v = 6
               \<and> map_option isVisible (find (\<lambda>x. id_l x = ident) v) = Some True"
proof -
  define s where "s = subscribe l layerManager"
  have s: "heap s = heap layerManager" "layers s = layers layerManager" "arrays s = []"
    "listeners s = [l]" "calls s = []"
    by (simp_all add: s_def subscribe_def setAdd_def layerManager_rest)
  have look: "mapGet (layers s) ident = Some r"
    using assms by (simp add: s layerManager_lookup)
  have r: "r < length (heap s)" using assms(1) by (simp add: s layerManager_heap layer_count)
  have "heap s ! r = newLayerState (fst (ATLAS_LAYERS ! r)) (snd (ATLAS_LAYERS ! r))"
    using assms(1) by (simp add: s layerManager_eq)
  then have vis: "isVisible (heap s ! r) = (ident = ''indice_riesgo'')"
    and idr: "id_l (heap s ! r) = ident"
    using assms(2) by (simp_all add: newLayerState_def)
  show "calls (snd (setLayerVisibility ident True s)) = []" if "ident = ''indice_riesgo''"
    using that look vis by (simp add: setLayerVisibility_def s)
  show "\<exists>v. calls (snd (setLayerVisibility ident True s)) = [(l, 0, v)] \<and> length v = 6
          \<and> map_option isVisible (find (\<lambda>x. id_l x = ident) v) = Some True"
    if "ident \<noteq> ''indice_riesgo''"
  proof -
    define x where "x = (heap s ! r)\<lparr>isVisible := True\<rparr>"
    define v where "v = (heap s)[r := x]"
    have "snd (setLayerVisibility ident True s) = notifyListeners (s\<lparr>heap := v\<rparr>)"
      using that look vis by (simp add: setLayerVisibility_def v_def x_def)
    moreover have "map (\<lambda>q. v ! q) (map snd (layers s)) = v"
      by (simp add: s layerManager_refs v_def map_nth del: upt.simps) (metis length_list_update map_nth)
    ultimately have c: "calls (snd (setLayerVisibility ident True s)) = [(l, 0, v)]"
      by (simp add: notifyListeners_eq s)
    have "id_l x = id_l (heap s ! r)" by (simp add: x_def)
    then have "map id_l v = map id_l (heap s)"
      using r by (simp add: v_def map_update list_update_same_conv)
    then have d: "distinct (map id_l v)"
      by (simp add: s layerManager_heap layer_ids)
    have idx: "id_l x = ident" using idr by (simp add: x_def)
    have "x \<in> set v" using r by (simp add: v_def set_update_memI)
    with d have "find (\<lambda>y. id_l y = id_l x) v = Some x" by (rule find_unique)
    then have "find (\<lambda>y. id_l y = ident) v = Some x" by (simp only: idx)
    moreover have "isVisible x" by (simp add: x_def)
    ultimately have "map_option isVisible (find (\<lambda>y. id_l y = ident) v) = Some True"
      by simp
    moreover have "length v = 6" by (simp add: v_def s layerManager_heap)
    ultimately show ?thesis using c by blast
  qed
qed

lemma initial_snapshot:
  "fst (getLayers layerManager) = 0"
  "mapGet (layers layerManager) ''indice_riesgo'' = Some 0"
  "view (snd (getLayers layerManager)) 0 = heap layerManager"
proof -
  show "fst (getLayers layerManager) = 0"
    by (simp add: getLayers_def layerManager_rest)
  show "mapGet (layers layerManager) ''indice_riesgo'' = Some 0"
    by (simp add: mapGet_def layerManager_layers)
  show "view (snd (getLayers layerManager)) 0 = heap layerManager"
    by (simp add: view_def getLayers_def layerManager_rest layerManager_refs map_nth
          del: upt.simps)
qed

lemma forEachLayer_heap_length:
  "length (foldl (\<lambda>h entry. h[snd entry := f (fst entry) (h ! snd entry)]) h0 es) = length h0"
  by (induction es arbitrary: h0) simp_all

lemma forEachLayer_frame:
  "arrays (forEachLayer f s) = arrays s" "layers (forEachLayer f s) = layers s"
  "length (heap (forEachLayer f s)) = length (heap s)"
  by (simp_all add: forEachLayer_def forEachLayer_heap_length)

lemma notifyListeners_frame:
  "arrays (notifyListeners s) = arrays s @ [map snd (layers s)]"
  "layers (notifyListeners s) = layers s" "heap (notifyListeners s) = heap s"
  by (simp_all add: notifyListeners_eq)

lemma filterLayers_frame:
  "\<exists>xs. arrays (snd (filterLayers p s)) = arrays s @ xs"
  "layers (snd (filterLayers p s)) = layers s" "heap (snd (filterLayers p s)) = heap s"
  by (simp_all add: filterLayers_def getLayers_def)

text \<open>
  No operation removes or overwrites an array that exists, changes the map of the
  layers, or changes the number of layer objects.
\<close>

lemma perform_arrays: "\<exists>xs. arrays (perform op s) = arrays s @ xs"
proof (cases op)
  case (ToggleLayer ident)
  then show ?thesis
    by (simp add: toggleLayer_def Let_def notifyListeners_frame split: option.splits)
next
  case (SetLayerVisibility ident v)
  then show ?thesis
    by (simp add: setLayerVisibility_def notifyListeners_frame split: option.splits)
next
  case (SetLayerLoading ident v)
  then show ?thesis
    by (simp add: setLayerLoading_def notifyListeners_frame split: option.splits)
next
  case (SetLayerData now ident present count)
  then show ?thesis
    by (simp add: setLayerData_def notifyListeners_frame split: option.splits)
next
  case GetStatistics
  then show ?thesis by (simp add: getStatistics_def getLayers_def Let_def)
qed (simp_all add: getLayers_def getVisibleLayers_def getLayersByType_def filterLayers_frame
       showOnlyLayer_def hideAllLayers_def reset_def notifyListeners_frame forEachLayer_frame
       subscribe_def unsubscribe_def)

lemma perform_layers: "layers (perform op s) = layers s"
proof (cases op)
  case (ToggleLayer ident)
  then show ?thesis
    by (simp add: toggleLayer_def Let_def notifyListeners_frame split: option.splits)
next
  case (SetLayerVisibility ident v)
  then show ?thesis
    by (simp add: setLayerVisibility_def notifyListeners_frame split: option.splits)
next
  case (SetLayerLoading ident v)
  then show ?thesis
    by (simp add: setLayerLoading_def notifyListeners_frame split: option.splits)
next
  case (SetLayerData now ident present count)
  then show ?thesis
    by (simp add: setLayerData_def notifyListeners_frame split: option.splits)
next
  case GetStatistics
  then show ?thesis by (simp add: getStatistics_def getLayers_def Let_def)
qed (simp_all add: getLayers_def getVisibleLayers_def getLayersByType_def filterLayers_frame
       showOnlyLayer_def hideAllLayers_def reset_def notifyListeners_frame forEachLayer_frame
       subscribe_def unsubscribe_def)

lemma perform_heap_length: "length (heap (perform op s)) = length (heap s)"
proof (cases op)
  case (ToggleLayer ident)
  then show ?thesis
    by (simp add: toggleLayer_def Let_def notifyListeners_frame split: option.splits)
next
  case (SetLayerVisibility ident v)
  then show ?thesis
    by (simp add: setLayerVisibility_def notifyListeners_frame split: option.splits)
next
  case (SetLayerLoading ident v)
  then show ?thesis
    by (simp add: setLayerLoading_def notifyListeners_frame split: option.splits)
next
  case (SetLayerData now ident present count)
  then show ?thesis
    by (simp add: setLayerData_def notifyListeners_frame split: option.splits)
next
  case GetStatistics
  then show ?thesis by (simp add: getStatistics_def getLayers_def Let_def)
qed (simp_all add: getLayers_def getVisibleLayers_def getLayersByType_def filterLayers_frame
       showOnlyLayer_def hideAllLayers_def reset_def notifyListeners_frame forEachLayer_frame
       subscribe_def unsubscribe_def)

lemma performAll_frame:
  "\<exists>xs. arrays (performAll ops s) = arrays s @ xs"
  "layers (performAll ops s) = layers s"
  "length (heap (performAll ops s)) = length (heap s)"
proof -
  show "\<exists>xs. arrays (performAll ops s) = arrays s @ xs"
  proof (induction ops arbitrary: s)
    case Nil
    show ?case by (simp add: performAll_def)
  next
    case (Cons op ops)
    obtain xs where x: "arrays (perform op s) = arrays s @ xs"
      using perform_arrays by blast
    obtain ys where y: "arrays (performAll ops (perform op s)) = arrays (perform op s) @ ys"
      using Cons.IH by blast
    have "performAll (op # ops) s = performAll ops (perform op s)"
      by (simp add: performAll_def)
    then have "arrays (performAll (op # ops) s) = arrays s @ (xs @ ys)"
      by (simp add: x y)
    then show ?case by blast
  qed
  show "layers (performAll ops s) = layers s"
    by (induction ops arbitrary: s) (simp_all add: performAll_def perform_layers)
  show "length (heap (performAll ops s)) = length (heap s)"
    by (induction ops arbitrary: s) (simp_all add: performAll_def perform_heap_length)
qed

text \<open>
  Claim C5, as amended. \<open>getLayers\<close> returns a new array on every call: its address
  held no array before, and every later call, after any sequence of operations of the
  manager, returns another address. No operation of the manager writes to an array that
  was returned: after any sequence of operations it holds the same references as when it
  was returned. But these are references to the manager's own layer objects, so the
  contents are not isolated: \<open>toggleLayer\<close> on a known id, performed at any later point,
  leaves the array as it was, flips \<open>isVisible\<close> of the object of that layer, to which
  the array refers, and leaves every other object as it was.
\<close>

theorem snapshot_shares_layer_objects:
  assumes "getLayers s = (a, s1)" and "s2 = performAll ops s1"
  shows "a = length (arrays s) \<and> a < length (arrays s2) \<and>
         arrays s1 ! a = map snd (layers s) \<and> arrays s2 ! a = arrays s1 ! a \<and>
         fst (getLayers s2) \<noteq> a \<and>
         (\<forall>ident r. mapGet (layers s2) ident = Some r \<and> r < length (heap s2) \<longrightarrow>
            arrays (snd (toggleLayer ident s2)) ! a = arrays s1 ! a \<and>
            r \<in> set (arrays (snd (toggleLayer ident s2)) ! a) \<and>
            isVisible (heap (snd (toggleLayer ident s2)) ! r) = (\<not> isVisible (heap s2 ! r)) \<and>
            (\<forall>q. q \<noteq> r \<longrightarrow> heap (snd (toggleLayer ident s2)) ! q = heap s2 ! q))"
proof -
  have a: "a = length (arrays s)" and s1: "s1 = s\<lparr>arrays := arrays s @ [map snd (layers s)]\<rparr>"
    using assms(1) by (auto simp: getLayers_def)
  obtain xs where xs: "arrays s2 = arrays s1 @ xs"
    using performAll_frame(1) assms(2) by blast
  have lay: "layers s2 = layers s"
    by (simp add: assms(2) performAll_frame(2) s1)
  have cell1: "arrays s1 ! a = map snd (layers s)" by (simp add: a s1)
  have len: "a < length (arrays s1)" by (simp add: a s1)
  have cell2: "arrays s2 ! a = arrays s1 ! a"
    using len by (simp add: xs nth_append)
  have later: "fst (getLayers s2) \<noteq> a"
    using len by (simp add: getLayers_def xs)
  have toggle: "arrays (snd (toggleLayer ident s2)) ! a = arrays s1 ! a \<and>
        r \<in> set (arrays (snd (toggleLayer ident s2)) ! a) \<and>
        isVisible (heap (snd (toggleLayer ident s2)) ! r) = (\<not> isVisible (heap s2 ! r)) \<and>
        (\<forall>q. q \<noteq> r \<longrightarrow> heap (snd (toggleLayer ident s2)) ! q = heap s2 ! q)"
    if look: "mapGet (layers s2) ident = Some r" and r: "r < length (heap s2)" for ident r
  proof -
    define s3 where "s3 = snd (toggleLayer ident s2)"
    have s3: "s3 = notifyListeners
        (s2\<lparr>heap := (heap s2)[r := (heap s2 ! r)\<lparr>isVisible := \<not> isVisible (heap s2 ! r)\<rparr>]\<rparr>)"
      unfolding s3_def using look by (rule toggleLayer_known)
    have "arrays s3 = arrays s2 @ [map snd (layers s2)]"
      by (simp add: s3 notifyListeners_frame)
    then have c3: "arrays s3 ! a = arrays s1 ! a"
      using len by (simp add: xs nth_append)
    have "r \<in> set (map snd (layers s))"
      using look by (auto simp: lay mapGet_def dest!: map_of_SomeD intro: rev_image_eqI)
    then have mem: "r \<in> set (arrays s3 ! a)" by (simp add: c3 cell1)
    have h3: "heap s3 = (heap s2)[r := (heap s2 ! r)\<lparr>isVisible := \<not> isVisible (heap s2 ! r)\<rparr>]"
      by (simp add: s3 notifyListeners_frame)
    have "isVisible (heap s3 ! r) = (\<not> isVisible (heap s2 ! r))"
      using r by (simp add: h3)
    moreover have "\<forall>q. q \<noteq> r \<longrightarrow> heap s3 ! q = heap s2 ! q"
      by (simp add: h3)
    ultimately show ?thesis using c3 mem unfolding s3_def by blast
  qed
  have len2: "a < length (arrays s2)"
    using len by (simp add: xs)
  have t: "\<forall>ident r. mapGet (layers s2) ident = Some r \<and> r < length (heap s2) \<longrightarrow>
            arrays (snd (toggleLayer ident s2)) ! a = arrays s1 ! a \<and>
            r \<in> set (arrays (snd (toggleLayer ident s2)) ! a) \<and>
            isVisible (heap (snd (toggleLayer ident s2)) ! r) = (\<not> isVisible (heap s2 ! r)) \<and>
            (\<forall>q. q \<noteq> r \<longrightarrow> heap (snd (toggleLayer ident s2)) ! q = heap s2 ! q)"
    using toggle by blast
  show ?thesis
    using a len2 cell1 cell2 later t by (intro conjI)
qed

theorem snapshot_shares_layer_objects_witness:
  "fst (getLayers layerManager) = 0 \<and>
   arrays (performAll laterOperations (snd (getLayers layerManager))) ! 0
     = map snd (layers layerManager) \<and>
   fst (getLayers (performAll laterOperations (snd (getLayers layerManager)))) \<noteq> 0 \<and>
   mapGet (layers (performAll laterOperations (snd (getLayers layerManager)))) ''indice_riesgo''
     = Some 0 \<and>
   0 < length (heap (performAll laterOperations (snd (getLayers layerManager)))) \<and>
   0 \<in> set (arrays (snd (toggleLayer ''indice_riesgo''
               (performAll laterOperations (snd (getLayers layerManager))))) ! 0) \<and>
   isVisible (heap (snd (toggleLayer ''indice_riesgo''
       (performAll laterOperations (snd (getLayers layerManager))))) ! 0)
     = (\<not> isVisible (heap (performAll laterOperations (snd (getLayers layerManager))) ! 0))"
proof -
  define s1 where "s1 = snd (getLayers layerManager)"
  define s2 where "s2 = performAll laterOperations s1"
  have g: "getLayers layerManager = (0, s1)"
    using initial_snapshot(1) by (simp add: s1_def) (metis prod.collapse)
  have look: "mapGet (layers s2) ''indice_riesgo'' = Some 0"
    using initial_snapshot(2) by (simp add: s2_def s1_def performAll_frame(2) getLayers_def)
  have len: "0 < length (heap s2)"
    by (simp add: s2_def s1_def performAll_frame(3) getLayers_def layerManager_heap)
  note r = snapshot_shares_layer_objects [OF g s2_def]
  from r have c: "arrays s2 ! 0 = map snd (layers layerManager)" by simp
  from r have l: "fst (getLayers s2) \<noteq> 0" by blast
  from r look len have m: "0 \<in> set (arrays (snd (toggleLayer ''indice_riesgo'' s2)) ! 0)"
    by blast
  from r look len have v: "isVisible (heap (snd (toggleLayer ''indice_riesgo'' s2)) ! 0)
      = (\<not> isVisible (heap s2 ! 0))"
    by blast
  show ?thesis
    using initial_snapshot(1) c l look len m v
    unfolding s2_def s1_def by (intro conjI)
qed

text \<open>
  The contents of a snapshot do change: the array returned by \<open>getLayers\<close> in the
  initial state shows the risk index visible, and after \<open>toggleLayer\<close> the same array
  shows it hidden.
\<close>

theorem snapshot_counterexample:
  "map isVisible (view (snd (getLayers layerManager)) (fst (getLayers layerManager)))
     = [True, False, False, False, False, False] \<and>
   map isVisible
     (view (snd (toggleLayer ''indice_riesgo'' (snd (getLayers layerManager))))
        (fst (getLayers layerManager)))
     = [False, False, False, False, False, False]"
proof -
  define s1 where "s1 = snd (getLayers layerManager)"
  define s2 where "s2 = snd (toggleLayer ''indice_riesgo'' s1)"
  have g: "getLayers layerManager = (0, s1)"
    using initial_snapshot(1) by (simp add: s1_def) (metis prod.collapse)
  have l: "(0::nat) < length (heap layerManager)" by (simp add: layerManager_heap)
  have t: "toggleLayer ''indice_riesgo'' s1 = (fst (toggleLayer ''indice_riesgo'' s1), s2)"
    by (simp add: s2_def)
  note f = toggle_after_snapshot [OF g initial_snapshot(2) l t]
  have before: "map isVisible (view s1 0) = [True, False, False, False, False, False]"
    using initial_snapshot(3) by (simp add: s1_def layerManager_heap)
  have "view s2 0 = map (\<lambda>r. heap s2 ! r) [0..<length (heap layerManager)]"
    by (simp add: view_def f(3) f(2) layerManager_refs del: upt.simps)
  also have "\<dots> = heap s2"
    by (simp add: f(5) f(6) map_nth del: upt.simps) (metis length_list_update map_nth)
  finally have "map isVisible (view s2 0)
      = (map isVisible (heap layerManager))[0 := \<not> isVisible (heap layerManager ! 0)]"
    by (simp add: f(5) f(6) map_update)
  moreover have "isVisible (heap layerManager ! 0)"
  proof -
    have "map isVisible (heap layerManager) ! 0 = True" by (simp only: layerManager_heap) simp
    then show ?thesis using l by simp
  qed
  ultimately have "map isVisible (view s2 0) = [False, False, False, False, False, False]"
    by (simp add: layerManager_heap)
  with before show ?thesis
    by (simp add: s1_def[symmetric] s2_def[symmetric] initial_snapshot(1))
qed

text \<open>
  Claim C6, as amended. In the initial state, for every configured layer id other than
  \<open>indice_riesgo\<close>: after subscribing a listener, one call of
  \<open>setLayerVisibility(id, true)\<close> invokes the listener exactly once, with a snapshot in
  which the layer \<open>id\<close> is visible. For \<open>indice_riesgo\<close>, visible from the start, the
  call finds the value unchanged and the listener is not invoked.
\<close>

theorem setLayerVisibility_notifies_once:
  assumes "ident \<in> set (map fst ATLAS_LAYERS)"
  shows "(ident = ''indice_riesgo'' \<longrightarrow>
            calls (snd (setLayerVisibility ident True (subscribe l layerManager))) = []) \<and>
         (ident \<noteq> ''indice_riesgo'' \<longrightarrow>
            (\<exists>a v. calls (snd (setLayerVisibility ident True (subscribe l layerManager)))
                     = [(l, a, v)] \<and>
                   map_option isVisible (find (\<lambda>x. id_l x = ident) v) = Some True))"
proof -
  obtain r where r: "r < length ATLAS_LAYERS" "ident = fst (ATLAS_LAYERS ! r)"
    using assms by (auto simp: in_set_conv_nth)
  show ?thesis
    using setLayerVisibility_initial [OF r, of l] by blast
qed

theorem setLayerVisibility_notifies_once_witness:
  "''homicidios'' \<in> set (map fst ATLAS_LAYERS) \<and>
   (\<exists>a v. calls (snd (setLayerVisibility ''homicidios'' True (subscribe 7 layerManager)))
            = [(7, a, v)] \<and>
          map_option isVisible (find (\<lambda>x. id_l x = ''homicidios'') v) = Some True)"
  using setLayerVisibility_notifies_once [of "''homicidios''" 7]
  by (simp add: layer_ids)

text \<open>For the layer \<open>indice_riesgo\<close> the listener is not invoked at all.\<close>

theorem setLayerVisibility_counterexample:
  "''indice_riesgo'' \<in> set (map fst ATLAS_LAYERS) \<and>
   calls (snd (setLayerVisibility ''indice_riesgo'' True (subscribe 7 layerManager))) = []"
proof -
  have "0 < length ATLAS_LAYERS" by (simp add: layer_count)
  moreover have "''indice_riesgo'' = fst (ATLAS_LAYERS ! 0)"
  proof -
    have "map fst ATLAS_LAYERS ! 0 = ''indice_riesgo''" by (simp only: layer_ids) simp
    then show ?thesis by (simp add: layer_count)
  qed
  ultimately have "calls (snd (setLayerVisibility ''indice_riesgo'' True (subscribe 7 layerManager))) = []"
    by (rule setLayerVisibility_initial(1)) simp
  then show ?thesis by (simp add: layer_ids)
qed

end
